theory Spec2Isabelle
  imports Main "HOL-Library.AList" "HOL-Library.Char_ord" "HOL-Library.List_Lexorder"
begin

section \<open>The Vezor API client (internal/client/client.go)\<close>

text \<open>
  The client is one Go file. Its data are structs of strings, integers and
  \<^verbatim>\<open>map[string]string\<close> values; its effects are calls into \<^verbatim>\<open>net/http\<close>.
  A Go string is a sequence of bytes, so it is a \<^typ>\<open>string\<close> here (a list of 8-bit
  characters). The functions of the Go standard library that the client calls
  (\<^verbatim>\<open>strings\<close>, \<^verbatim>\<open>fmt\<close>, \<^verbatim>\<open>net/url\<close>, \<^verbatim>\<open>encoding/json\<close>) are modelled first, then the
  client itself, function by function.
\<close>

subsection \<open>Go maps\<close>

text \<open>
  A \<^verbatim>\<open>map[string]string\<close> is an association list whose keys are distinct; the order
  of the list is the order in which \<^verbatim>\<open>range\<close> happens to visit the entries.
  \<^verbatim>\<open>m[k]\<close> on a missing key yields the zero value of the element type, the empty
  string.
\<close>

type_synonym gomap = "(string \<times> string) list"

definition map_index :: "gomap \<Rightarrow> string \<Rightarrow> string" where
  "map_index m k = (case map_of m k of None \<Rightarrow> [] | Some v \<Rightarrow> v)"

subsection \<open>Package unicode/utf8\<close>

text \<open>
  A rune is a Unicode code point, a number. \<open>utf8_size s\<close> is the length of the
  well-formed UTF-8 sequence of two to four bytes at the head of \<open>s\<close>, or 0 when there
  is none. \<^verbatim>\<open>utf8.DecodeRune\<close> (and \<^verbatim>\<open>range\<close> over a string) reads an ASCII byte as
  itself, a well-formed sequence as its code point, and any other byte as
  \<^verbatim>\<open>RuneError\<close>, U+FFFD, of width 1. \<open>runes 0 s\<close> are the runes of \<open>s\<close> in order.
\<close>

definition byte_in :: "char \<Rightarrow> nat \<Rightarrow> nat \<Rightarrow> bool" where
  "byte_in c lo hi = (lo \<le> of_char c \<and> (of_char c :: nat) \<le> hi)"

definition utf8_size :: "string \<Rightarrow> nat" where
  "utf8_size s =
     (case s of
        [] \<Rightarrow> 0
      | c0 # r \<Rightarrow>
          if byte_in c0 0xC2 0xDF then
            (case r of
               c1 # _ \<Rightarrow> if byte_in c1 0x80 0xBF then 2 else 0
             | _ \<Rightarrow> 0)
          else if byte_in c0 0xE0 0xEF then
            (case r of
               c1 # c2 # _ \<Rightarrow>
                 if byte_in c1 (if c0 = CHR 0xE0 then 0xA0 else 0x80)
                               (if c0 = CHR 0xED then 0x9F else 0xBF)
                    \<and> byte_in c2 0x80 0xBF
                 then 3 else 0
             | _ \<Rightarrow> 0)
          else if byte_in c0 0xF0 0xF4 then
            (case r of
               c1 # c2 # c3 # _ \<Rightarrow>
                 if byte_in c1 (if c0 = CHR 0xF0 then 0x90 else 0x80)
                               (if c0 = CHR 0xF4 then 0x8F else 0xBF)
                    \<and> byte_in c2 0x80 0xBF \<and> byte_in c3 0x80 0xBF
                 then 4 else 0
             | _ \<Rightarrow> 0)
          else 0)"

definition RuneError :: nat where
  "RuneError = 0xFFFD"

definition DecodeRune :: "string \<Rightarrow> nat \<times> nat" where
  "DecodeRune s =
     (case s of
        [] \<Rightarrow> (RuneError, 0)
      | c0 # r \<Rightarrow>
          if of_char c0 < (0x80 :: nat) then (of_char c0, 1)
          else if utf8_size s = 2 then
            (case r of
               c1 # _ \<Rightarrow> (of_char c0 mod 32 * 64 + of_char c1 mod 64, 2)
             | _ \<Rightarrow> (RuneError, 1))
          else if utf8_size s = 3 then
            (case r of
               c1 # c2 # _ \<Rightarrow>
                 (of_char c0 mod 16 * 4096 + of_char c1 mod 64 * 64 + of_char c2 mod 64, 3)
             | _ \<Rightarrow> (RuneError, 1))
          else if utf8_size s = 4 then
            (case r of
               c1 # c2 # c3 # _ \<Rightarrow>
                 (of_char c0 mod 8 * 262144 + of_char c1 mod 64 * 4096
                    + of_char c2 mod 64 * 64 + of_char c3 mod 64, 4)
             | _ \<Rightarrow> (RuneError, 1))
          else (RuneError, 1))"

fun runes :: "nat \<Rightarrow> string \<Rightarrow> nat list" where
  "runes skip [] = []"
| "runes skip (c # cs) =
     (if 0 < skip then runes (skip - 1) cs
      else fst (DecodeRune (c # cs)) # runes (snd (DecodeRune (c # cs)) - 1) cs)"

subsection \<open>Package strings\<close>

text \<open>
  \<^verbatim>\<open>strings.TrimRight(s, cutset)\<close> removes the trailing characters of \<open>s\<close> that occur
  in \<open>cutset\<close>. The client's cutset is \<^verbatim>\<open>"/"\<close>, a single ASCII byte, for which
  the function works on bytes.
\<close>

definition TrimRight :: "string \<Rightarrow> string \<Rightarrow> string" where
  "TrimRight s cutset = rev (dropWhile (\<lambda>c. c \<in> set cutset) (rev s))"

definition isUpper :: "char \<Rightarrow> bool" where
  "isUpper c = (CHR ''A'' \<le> c \<and> c \<le> CHR ''Z'')"

definition isLower :: "char \<Rightarrow> bool" where
  "isLower c = (CHR ''a'' \<le> c \<and> c \<le> CHR ''z'')"

definition isDigit :: "char \<Rightarrow> bool" where
  "isDigit c = (CHR ''0'' \<le> c \<and> c \<le> CHR ''9'')"

definition toLower :: "char \<Rightarrow> char" where
  "toLower c = (if isUpper c then char_of (of_char c + (32::nat)) else c)"

text \<open>
  \<^verbatim>\<open>strings.EqualFold(s, t)\<close> reports whether \<open>s\<close> and \<open>t\<close>, read as UTF-8, are
  equal under simple Unicode case folding:
  \<^verbatim>\<open>
      // ASCII fast path
      i := 0
      for ; i < len(s) && i < len(t); i++ {
          sr := s[i]
          tr := t[i]
          if sr|tr >= utf8.RuneSelf { goto hasUnicode }
          if tr == sr { continue }
          if tr < sr { tr, sr = sr, tr }
          if 'A' <= sr && sr <= 'Z' && tr == sr+'a'-'A' { continue }
          return false
      }
      return len(s) == len(t)
  hasUnicode:
      s = s[i:]
      t = t[i:]
      for _, sr := range s {
          if len(t) == 0 { return false }
          var tr rune
          if t[0] < utf8.RuneSelf { tr, t = rune(t[0]), t[1:] }
          else { r, size := utf8.DecodeRuneInString(t); tr, t = r, t[size:] }
          if tr == sr { continue }
          if tr < sr { tr, sr = sr, tr }
          if tr < utf8.RuneSelf {
              if 'A' <= sr && sr <= 'Z' && tr == sr+'a'-'A' { continue }
              return false
          }
          r := unicode.SimpleFold(sr)
          for r != sr && r < tr { r = unicode.SimpleFold(r) }
          if r == tr { continue }
          return false
      }
      return len(t) == 0
  \<close>
  The last step walks the case-folding orbits of package \<^verbatim>\<open>unicode\<close>, a table of the
  Unicode standard. The table is a parameter of the model: a \<open>fold_table\<close> \<open>uf\<close>
  says, for runes \<open>sr < tr\<close> with \<open>tr\<close> outside ASCII, whether that walk from \<open>sr\<close>
  ends at \<open>tr\<close>. Everything else of \<^verbatim>\<open>EqualFold\<close> is modelled as written, and
  every statement about it below holds for every table.
\<close>

type_synonym fold_table = "nat \<Rightarrow> nat \<Rightarrow> bool"

definition rune_fold_eq :: "fold_table \<Rightarrow> nat \<Rightarrow> nat \<Rightarrow> bool" where
  "rune_fold_eq uf sr0 tr0 =
     (if tr0 = sr0 then True
      else
        (let sr = min sr0 tr0; tr = max sr0 tr0
         in if tr < 0x80 then 0x41 \<le> sr \<and> sr \<le> 0x5A \<and> tr = sr + 32
            else uf sr tr))"

fun EqualFold_runes :: "fold_table \<Rightarrow> nat list \<Rightarrow> nat list \<Rightarrow> bool" where
  "EqualFold_runes uf [] ts = (ts = [])"
| "EqualFold_runes uf (sr # ss) [] = False"
| "EqualFold_runes uf (sr # ss) (tr # ts) =
     (if rune_fold_eq uf sr tr then EqualFold_runes uf ss ts else False)"

fun EqualFold :: "fold_table \<Rightarrow> string \<Rightarrow> string \<Rightarrow> bool" where
  "EqualFold uf [] t = (t = [])"
| "EqualFold uf (sr # s) [] = False"
| "EqualFold uf (sr # s) (tr # t) =
     (if 0x80 \<le> (of_char sr :: nat) \<or> 0x80 \<le> (of_char tr :: nat) then
        EqualFold_runes uf (runes 0 (sr # s)) (runes 0 (tr # t))
      else if tr = sr then EqualFold uf s t
      else if isUpper (min sr tr) \<and> of_char (max sr tr) = (of_char (min sr tr) :: nat) + 32
        then EqualFold uf s t
      else False)"

subsection \<open>Package fmt: integers in decimal\<close>

text \<open>\<^verbatim>\<open>fmt.Sprintf("%d", i)\<close> writes the integer \<open>i\<close> in decimal, with a minus sign when negative.\<close>

fun digits10 :: "nat \<Rightarrow> string" where
  "digits10 n =
     (if n < 10 then [char_of (48 + n)]
      else digits10 (n div 10) @ [char_of (48 + n mod 10)])"

definition Itoa :: "int \<Rightarrow> string" where
  "Itoa i = (if i < 0 then CHR ''-'' # digits10 (nat (- i)) else digits10 (nat i))"

subsection \<open>Package net/url\<close>

text \<open>
  \<^verbatim>\<open>url.PathEscape\<close> and \<^verbatim>\<open>url.QueryEscape\<close> share one routine, \<^verbatim>\<open>escape(s, mode)\<close>:
  letters, digits and \<^verbatim>\<open>- _ . ~\<close> are never escaped; of the reserved characters
  \<^verbatim>\<open>$ & + , / : ; = ? @\<close> a path segment escapes \<^verbatim>\<open>/ ; , ?\<close> and a query component
  escapes all; every other byte is escaped. An escaped byte is written \<^verbatim>\<open>%XX\<close> with
  upper-case hexadecimal digits, except that a query component writes a space as
  \<^verbatim>\<open>+\<close>.
\<close>

datatype encoding = encodePathSegment | encodeQueryComponent

definition shouldEscape :: "char \<Rightarrow> encoding \<Rightarrow> bool" where
  "shouldEscape c mode =
     (if isLower c \<or> isUpper c \<or> isDigit c then False
      else if c \<in> set ''-_.~'' then False
      else if c \<in> set ''$&+,/:;=?@'' then
        (case mode of
           encodePathSegment \<Rightarrow> c = CHR ''/'' \<or> c = CHR '';'' \<or> c = CHR '','' \<or> c = CHR ''?''
         | encodeQueryComponent \<Rightarrow> True)
      else True)"

definition upperhex :: string where
  "upperhex = ''0123456789ABCDEF''"

definition escape_byte :: "encoding \<Rightarrow> char \<Rightarrow> string" where
  "escape_byte mode c =
     (if c = CHR '' '' \<and> mode = encodeQueryComponent then ''+''
      else if shouldEscape c mode then
        [CHR ''%'', upperhex ! (of_char c div 16), upperhex ! (of_char c mod 16)]
      else [c])"

definition escape :: "string \<Rightarrow> encoding \<Rightarrow> string" where
  "escape s mode = concat (map (escape_byte mode) s)"

definition PathEscape :: "string \<Rightarrow> string" where
  "PathEscape s = escape s encodePathSegment"

definition QueryEscape :: "string \<Rightarrow> string" where
  "QueryEscape s = escape s encodeQueryComponent"

text \<open>
  \<^verbatim>\<open>url.Values\<close> is a \<^verbatim>\<open>map[string][]string\<close>. \<^verbatim>\<open>Set\<close> replaces the values of a key by
  one value. \<^verbatim>\<open>Encode\<close> returns the empty string for an empty map and otherwise
  visits the keys in sorted order (Go compares strings bytewise, as the
  lexicographic order on \<^typ>\<open>string\<close> does) and writes \<^verbatim>\<open>key=value\<close> for each value,
  both query-escaped, separated by \<^verbatim>\<open>&\<close>:
  \<^verbatim>\<open>
      for _, k := range keys {
          vs := v[k]
          keyEscaped := QueryEscape(k)
          for _, v := range vs {
              if buf.Len() > 0 { buf.WriteByte('&') }
              buf.WriteString(keyEscaped)
              buf.WriteByte('=')
              buf.WriteString(QueryEscape(v))
          }
      }
  \<close>
\<close>

type_synonym Values = "(string \<times> string list) list"

definition Values_Set :: "Values \<Rightarrow> string \<Rightarrow> string \<Rightarrow> Values" where
  "Values_Set v key val = AList.update key [val] v"

fun Encode_vals :: "string \<Rightarrow> string list \<Rightarrow> string \<Rightarrow> string" where
  "Encode_vals keyEscaped [] buf = buf"
| "Encode_vals keyEscaped (v # vs) buf =
     Encode_vals keyEscaped vs
       ((if buf \<noteq> [] then buf @ ''&'' else buf) @ keyEscaped @ ''='' @ QueryEscape v)"

fun Encode_keys :: "Values \<Rightarrow> string list \<Rightarrow> string \<Rightarrow> string" where
  "Encode_keys v [] buf = buf"
| "Encode_keys v (k # keys) buf =
     Encode_keys v keys
       (Encode_vals (QueryEscape k) (case map_of v k of None \<Rightarrow> [] | Some vs \<Rightarrow> vs) buf)"

definition Values_Encode :: "Values \<Rightarrow> string" where
  "Values_Encode v = (if v = [] then [] else Encode_keys v (sort (map fst v)) [])"

subsection \<open>Package encoding/json\<close>

text \<open>
  \<^verbatim>\<open>json.Unmarshal(data, &v)\<close> first checks that \<open>data\<close> is one well-formed JSON value
  (surrounded by optional white space), then stores the value into \<open>v\<close>. The model
  has the same two phases: a scanner and parser for the JSON grammar, producing a
  \<open>json\<close> value, and a decoder from \<open>json\<close> into each of the client's structs.
  Numbers are kept as their literal text.
\<close>

datatype json =
    JNull
  | JBool bool
  | JNumber string
  | JString string
  | JArray "json list"
  | JObject "(string \<times> json) list"

datatype token =
    TBeginObject | TEndObject | TBeginArray | TEndArray | TColon | TComma
  | TString string | TNumber string | TTrue | TFalse | TNull

text \<open>
  String literals. Inside a string the scanner accepts every byte from 0x20 on,
  except the quote and the backslash; a backslash starts an escape: a quote, a
  backslash, a slash, one of the letters \<open>b f n r t\<close>, or \<open>u\<close> with four hexadecimal
  digits (a UTF-16 code unit). Unquoting copies ASCII bytes and well-formed UTF-8
  sequences, replaces every byte that does not start a well-formed UTF-8 sequence by
  U+FFFD, and writes a code unit in UTF-8, combining a high surrogate with a low
  surrogate that follows it at once and replacing any other surrogate by U+FFFD.
\<close>

definition isSpace :: "char \<Rightarrow> bool" where
  "isSpace c = (c = CHR '' '' \<or> c = CHR 0x09 \<or> c = CHR 0x0D \<or> c = CHR 0x0A)"

definition isSurrogate :: "nat \<Rightarrow> bool" where
  "isSurrogate r = (0xD800 \<le> r \<and> r < 0xE000)"

definition EncodeRune :: "nat \<Rightarrow> string" where
  "EncodeRune r0 =
     (let r = (if isSurrogate r0 \<or> 0x10FFFF < r0 then RuneError else r0) in
      if r < 0x80 then [char_of r]
      else if r < 0x800 then [char_of (0xC0 + r div 64), char_of (0x80 + r mod 64)]
      else if r < 0x10000 then
        [char_of (0xE0 + r div 4096), char_of (0x80 + r div 64 mod 64), char_of (0x80 + r mod 64)]
      else
        [char_of (0xF0 + r div 262144), char_of (0x80 + r div 4096 mod 64),
         char_of (0x80 + r div 64 mod 64), char_of (0x80 + r mod 64)])"

definition hexval :: "char \<Rightarrow> nat option" where
  "hexval c =
     (if isDigit c then Some (of_char c - 48)
      else if CHR ''a'' \<le> c \<and> c \<le> CHR ''f'' then Some (of_char c - 87)
      else if CHR ''A'' \<le> c \<and> c \<le> CHR ''F'' then Some (of_char c - 55)
      else None)"

definition getu4 :: "char \<Rightarrow> char \<Rightarrow> char \<Rightarrow> char \<Rightarrow> nat option" where
  "getu4 a b c d =
     (case (hexval a, hexval b, hexval c, hexval d) of
        (Some w, Some x, Some y, Some z) \<Rightarrow> Some (4096 * w + 256 * x + 16 * y + z)
      | _ \<Rightarrow> None)"

definition simple_escape :: "char \<Rightarrow> char option" where
  "simple_escape e =
     (if e = CHR 0x22 \<or> e = CHR 0x5C \<or> e = CHR ''/'' then Some e
      else if e = CHR ''b'' then Some (CHR 0x08)
      else if e = CHR ''f'' then Some (CHR 0x0C)
      else if e = CHR ''n'' then Some (CHR 0x0A)
      else if e = CHR ''r'' then Some (CHR 0x0D)
      else if e = CHR ''t'' then Some (CHR 0x09)
      else None)"

datatype item = Byte char | U16 nat

definition item_cons :: "item list \<Rightarrow> (item list \<times> string) option \<Rightarrow> (item list \<times> string) option" where
  "item_cons xs r = map_option (\<lambda>(items, rest). (xs @ items, rest)) r"

fun scan_string :: "nat \<Rightarrow> string \<Rightarrow> (item list \<times> string) option" where
  "scan_string pending [] = None"
| "scan_string pending (c # cs) =
     (if 0 < pending then item_cons [Byte c] (scan_string (pending - 1) cs)
      else if c = CHR 0x22 then Some ([], cs)
      else if c = CHR 0x5C then
        (case cs of
           [] \<Rightarrow> None
         | e # r \<Rightarrow>
             if e = CHR ''u'' then
               (case r of
                  h1 # h2 # h3 # h4 # r' \<Rightarrow>
                    (case getu4 h1 h2 h3 h4 of
                       None \<Rightarrow> None
                     | Some rr \<Rightarrow> item_cons [U16 rr] (scan_string 0 r'))
                | _ \<Rightarrow> None)
             else
               (case simple_escape e of
                  None \<Rightarrow> None
                | Some ch \<Rightarrow> item_cons [Byte ch] (scan_string 0 r)))
      else if of_char c < (0x20 :: nat) then None
      else if of_char c < (0x80 :: nat) then item_cons [Byte c] (scan_string 0 cs)
      else if utf8_size (c # cs) = 0 then
        item_cons (map Byte (EncodeRune RuneError)) (scan_string 0 cs)
      else item_cons [Byte c] (scan_string (utf8_size (c # cs) - 1) cs))"

fun unquote :: "item list \<Rightarrow> string" where
  "unquote [] = []"
| "unquote (Byte c # items) = c # unquote items"
| "unquote (U16 rr # U16 rr1 # items) =
     (if isSurrogate rr then
        (if rr < 0xDC00 \<and> 0xDC00 \<le> rr1 \<and> rr1 < 0xE000 then
           EncodeRune ((rr - 0xD800) * 1024 + (rr1 - 0xDC00) + 0x10000) @ unquote items
         else EncodeRune RuneError @ unquote (U16 rr1 # items))
      else EncodeRune rr @ unquote (U16 rr1 # items))"
| "unquote (U16 rr # items) = EncodeRune rr @ unquote items"

text \<open>
  Number literals, with the states of Go's scanner: after the minus sign (\<open>SNeg\<close>),
  after a leading zero (\<open>S0\<close>), in the integer part (\<open>S1\<close>), after the decimal point
  (\<open>SDot\<close>, \<open>SDot0\<close>), after the exponent mark (\<open>SE\<close>, \<open>SESign\<close>, \<open>SE0\<close>).
  \<open>scan_number st cs\<close> is the number of characters of \<open>cs\<close> that belong to the
  literal.
\<close>

datatype numstate = SNeg | S0 | S1 | SDot | SDot0 | SE | SESign | SE0

fun scan_number :: "numstate \<Rightarrow> string \<Rightarrow> nat option" where
  "scan_number st [] = (if st = S0 \<or> st = S1 \<or> st = SDot0 \<or> st = SE0 then Some 0 else None)"
| "scan_number st (c # cs) =
     (case st of
        SNeg \<Rightarrow>
          if c = CHR ''0'' then map_option Suc (scan_number S0 cs)
          else if CHR ''1'' \<le> c \<and> c \<le> CHR ''9'' then map_option Suc (scan_number S1 cs)
          else None
      | S1 \<Rightarrow>
          if isDigit c then map_option Suc (scan_number S1 cs)
          else if c = CHR ''.'' then map_option Suc (scan_number SDot cs)
          else if c = CHR ''e'' \<or> c = CHR ''E'' then map_option Suc (scan_number SE cs)
          else Some 0
      | S0 \<Rightarrow>
          if c = CHR ''.'' then map_option Suc (scan_number SDot cs)
          else if c = CHR ''e'' \<or> c = CHR ''E'' then map_option Suc (scan_number SE cs)
          else Some 0
      | SDot \<Rightarrow>
          if isDigit c then map_option Suc (scan_number SDot0 cs) else None
      | SDot0 \<Rightarrow>
          if isDigit c then map_option Suc (scan_number SDot0 cs)
          else if c = CHR ''e'' \<or> c = CHR ''E'' then map_option Suc (scan_number SE cs)
          else Some 0
      | SE \<Rightarrow>
          if c = CHR ''+'' \<or> c = CHR ''-'' then map_option Suc (scan_number SESign cs)
          else if isDigit c then map_option Suc (scan_number SE0 cs)
          else None
      | SESign \<Rightarrow>
          if isDigit c then map_option Suc (scan_number SE0 cs) else None
      | SE0 \<Rightarrow>
          if isDigit c then map_option Suc (scan_number SE0 cs) else Some 0)"

text \<open>The scanner: the input as a list of tokens, or \<open>None\<close> for a syntax error.\<close>

lemma scan_string_shorter:
  "scan_string pending s = Some (items, rest) \<Longrightarrow> length rest < length s"
  by (induction pending s arbitrary: items rest rule: scan_string.induct)
     (fastforce simp: item_cons_def split: if_splits list.splits option.splits)+

definition token_cons :: "token \<Rightarrow> token list option \<Rightarrow> token list option" where
  "token_cons t r = map_option (Cons t) r"

function tokenize :: "string \<Rightarrow> token list option" where
  "tokenize [] = Some []"
| "tokenize (c # cs) =
     (if isSpace c then tokenize cs
      else if c = CHR ''{'' then token_cons TBeginObject (tokenize cs)
      else if c = CHR ''}'' then token_cons TEndObject (tokenize cs)
      else if c = CHR ''['' then token_cons TBeginArray (tokenize cs)
      else if c = CHR '']'' then token_cons TEndArray (tokenize cs)
      else if c = CHR '':'' then token_cons TColon (tokenize cs)
      else if c = CHR '','' then token_cons TComma (tokenize cs)
      else if c = CHR 0x22 then
        (case scan_string 0 cs of
           None \<Rightarrow> None
         | Some (items, rest) \<Rightarrow> token_cons (TString (unquote items)) (tokenize rest))
      else if c = CHR ''-'' \<or> isDigit c then
        (case scan_number (if c = CHR ''-'' then SNeg else if c = CHR ''0'' then S0 else S1) cs of
           None \<Rightarrow> None
         | Some n \<Rightarrow> token_cons (TNumber (c # take n cs)) (tokenize (drop n cs)))
      else if c = CHR ''t'' then
        (if take 3 cs = ''rue'' then token_cons TTrue (tokenize (drop 3 cs)) else None)
      else if c = CHR ''f'' then
        (if take 4 cs = ''alse'' then token_cons TFalse (tokenize (drop 4 cs)) else None)
      else if c = CHR ''n'' then
        (if take 3 cs = ''ull'' then token_cons TNull (tokenize (drop 3 cs)) else None)
      else None)"
  by pat_completeness auto
termination
  by (relation "measure length") (auto dest: scan_string_shorter)

text \<open>
  The parser keeps, as Go's scanner does, a stack with one entry per open array or
  object (at most \<open>maxNestingDepth\<close> of them) and a state saying what may come next.
\<close>

datatype frame =
    FArray "json list"
  | FObject "(string \<times> json) list"
  | FMember "(string \<times> json) list" string

datatype pmode =
    BeginValue | BeginValueOrEmpty | BeginStringOrEmpty | BeginString | ObjectKey | EndValue

definition maxNestingDepth :: nat where
  "maxNestingDepth = 10000"

definition end_value :: "json \<Rightarrow> frame list \<Rightarrow> (json + pmode \<times> frame list) option" where
  "end_value v st =
     (case st of
        [] \<Rightarrow> Some (Inl v)
      | FArray xs # st' \<Rightarrow> Some (Inr (EndValue, FArray (xs @ [v]) # st'))
      | FMember kvs k # st' \<Rightarrow> Some (Inr (EndValue, FObject (kvs @ [(k, v)]) # st'))
      | FObject kvs # st' \<Rightarrow> None)"

definition push_state :: "pmode \<Rightarrow> frame \<Rightarrow> frame list \<Rightarrow> (json + pmode \<times> frame list) option" where
  "push_state m f st = (if length st < maxNestingDepth then Some (Inr (m, f # st)) else None)"

definition step :: "pmode \<Rightarrow> frame list \<Rightarrow> token \<Rightarrow> (json + pmode \<times> frame list) option" where
  "step m st t =
     (if m = BeginValue \<or> m = BeginValueOrEmpty then
        (case t of
           TBeginObject \<Rightarrow> push_state BeginStringOrEmpty (FObject []) st
         | TBeginArray \<Rightarrow> push_state BeginValueOrEmpty (FArray []) st
         | TString s \<Rightarrow> end_value (JString s) st
         | TNumber n \<Rightarrow> end_value (JNumber n) st
         | TTrue \<Rightarrow> end_value (JBool True) st
         | TFalse \<Rightarrow> end_value (JBool False) st
         | TNull \<Rightarrow> end_value JNull st
         | TEndArray \<Rightarrow>
             (if m = BeginValueOrEmpty then
                (case st of FArray xs # st' \<Rightarrow> end_value (JArray xs) st' | _ \<Rightarrow> None)
              else None)
         | _ \<Rightarrow> None)
      else if m = BeginStringOrEmpty \<or> m = BeginString then
        (case t of
           TString k \<Rightarrow>
             (case st of FObject kvs # st' \<Rightarrow> Some (Inr (ObjectKey, FMember kvs k # st')) | _ \<Rightarrow> None)
         | TEndObject \<Rightarrow>
             (if m = BeginStringOrEmpty then
                (case st of FObject kvs # st' \<Rightarrow> end_value (JObject kvs) st' | _ \<Rightarrow> None)
              else None)
         | _ \<Rightarrow> None)
      else if m = ObjectKey then
        (case t of TColon \<Rightarrow> Some (Inr (BeginValue, st)) | _ \<Rightarrow> None)
      else
        (case st of
           FArray xs # st' \<Rightarrow>
             (case t of
                TComma \<Rightarrow> Some (Inr (BeginValue, st))
              | TEndArray \<Rightarrow> end_value (JArray xs) st'
              | _ \<Rightarrow> None)
         | FObject kvs # st' \<Rightarrow>
             (case t of
                TComma \<Rightarrow> Some (Inr (BeginString, st))
              | TEndObject \<Rightarrow> end_value (JObject kvs) st'
              | _ \<Rightarrow> None)
         | _ \<Rightarrow> None))"

fun parse_tokens :: "pmode \<Rightarrow> frame list \<Rightarrow> token list \<Rightarrow> json option" where
  "parse_tokens m st [] = None"
| "parse_tokens m st (t # ts) =
     (case step m st t of
        None \<Rightarrow> None
      | Some (Inl v) \<Rightarrow> (if ts = [] then Some v else None)
      | Some (Inr (m', st')) \<Rightarrow> parse_tokens m' st' ts)"

definition parse_json :: "string \<Rightarrow> json option" where
  "parse_json data =
     (case tokenize data of None \<Rightarrow> None | Some ts \<Rightarrow> parse_tokens BeginValue [] ts)"

text \<open>
  Decoding. \<^verbatim>\<open>Unmarshal\<close> stores into the value it is given: a JSON \<^verbatim>\<open>null\<close> leaves
  a string, an integer or a struct as it is and sets a map or a slice to nil; a JSON value
  of the wrong kind for its target is an \<^verbatim>\<open>UnmarshalTypeError\<close>; the members of an
  object are stored in order, each into the field whose \<^verbatim>\<open>json\<close> name equals the key
  or, failing that, equals it up to case; a member with no such field is skipped. An
  integer field takes a number literal that \<^verbatim>\<open>strconv.ParseInt\<close> reads as a 64-bit
  integer. The callers discard the value whenever an error is returned, so the decoders
  return \<open>None\<close> for an error.
\<close>

datatype json_error = SyntaxError | UnmarshalTypeError

definition Unmarshal :: "(json \<Rightarrow> 'a \<Rightarrow> 'a option) \<Rightarrow> string \<Rightarrow> 'a \<Rightarrow> json_error + 'a" where
  "Unmarshal dec data v =
     (case parse_json data of
        None \<Rightarrow> Inl SyntaxError
      | Some j \<Rightarrow> (case dec j v of None \<Rightarrow> Inl UnmarshalTypeError | Some v' \<Rightarrow> Inr v'))"

definition decode_string :: "json \<Rightarrow> string \<Rightarrow> string option" where
  "decode_string j cur = (case j of JString s \<Rightarrow> Some s | JNull \<Rightarrow> Some cur | _ \<Rightarrow> None)"

definition ParseInt :: "string \<Rightarrow> int option" where
  "ParseInt s =
     (let ds = (case s of c # r \<Rightarrow> if c = CHR ''-'' \<or> c = CHR ''+'' then r else s | [] \<Rightarrow> s);
          n = foldl (\<lambda>a c. 10 * a + (int (of_char c) - 48)) 0 ds;
          i = (case s of c # r \<Rightarrow> if c = CHR ''-'' then - n else n | [] \<Rightarrow> n)
      in if ds = [] \<or> \<not> list_all isDigit ds then None
         else if i < - (2 ^ 63) \<or> 2 ^ 63 \<le> i then None
         else Some i)"

definition decode_int :: "json \<Rightarrow> int \<Rightarrow> int option" where
  "decode_int j cur = (case j of JNumber n \<Rightarrow> ParseInt n | JNull \<Rightarrow> Some cur | _ \<Rightarrow> None)"

fun decode_map_entries :: "(string \<times> json) list \<Rightarrow> gomap \<Rightarrow> gomap option" where
  "decode_map_entries [] m = Some m"
| "decode_map_entries ((k, v) # kvs) m =
     (case decode_string v [] of
        None \<Rightarrow> None
      | Some e \<Rightarrow> decode_map_entries kvs (AList.update k e m))"

definition decode_map :: "json \<Rightarrow> gomap \<Rightarrow> gomap option" where
  "decode_map j cur =
     (case j of JObject kvs \<Rightarrow> decode_map_entries kvs cur | JNull \<Rightarrow> Some [] | _ \<Rightarrow> None)"

fun decode_fields :: "(string \<Rightarrow> json \<Rightarrow> 'a \<Rightarrow> 'a option) \<Rightarrow> (string \<times> json) list \<Rightarrow> 'a \<Rightarrow> 'a option" where
  "decode_fields field [] v = Some v"
| "decode_fields field ((k, j) # kvs) v =
     (case field k j v of None \<Rightarrow> None | Some v' \<Rightarrow> decode_fields field kvs v')"

definition decode_struct :: "(string \<Rightarrow> json \<Rightarrow> 'a \<Rightarrow> 'a option) \<Rightarrow> json \<Rightarrow> 'a \<Rightarrow> 'a option" where
  "decode_struct field j v =
     (case j of JObject kvs \<Rightarrow> decode_fields field kvs v | JNull \<Rightarrow> Some v | _ \<Rightarrow> None)"

text \<open>
  The key of a member matches a field when it equals the field's \<^verbatim>\<open>json\<close> name or
  equals it under case folding. The names of the client's fields are ASCII, and the
  only runes outside ASCII that fold to an ASCII letter are the Kelvin sign U+212A
  (bytes E2 84 AA, with \<open>k\<close>) and the long s U+017F (bytes C5 BF, with \<open>s\<close>);
  \<open>foldName\<close> folds those and the ASCII letters and keeps every other byte.
\<close>

fun foldName :: "string \<Rightarrow> string" where
  "foldName [] = []"
| "foldName (c # cs) =
     (if c = CHR 0xE2 then
        (case cs of
           d # e # rest \<Rightarrow>
             if d = CHR 0x84 \<and> e = CHR 0xAA then CHR ''k'' # foldName rest
             else c # foldName cs
         | _ \<Rightarrow> c # foldName cs)
      else if c = CHR 0xC5 then
        (case cs of
           d # rest \<Rightarrow> if d = CHR 0xBF then CHR ''s'' # foldName rest else c # foldName cs
         | _ \<Rightarrow> c # foldName cs)
      else toLower c # foldName cs)"

definition field_is :: "string \<Rightarrow> string \<Rightarrow> bool" where
  "field_is name key = (key = name \<or> foldName key = foldName name)"

subsection \<open>The client's data model\<close>

text \<open>
  \<^verbatim>\<open>
  type Secret struct {
      ID          string            `json:"id"`
      KeyName     string            `json:"key_name"`
      Value       string            `json:"value,omitempty"`
      Description string            `json:"description,omitempty"`
      Tags        map[string]string `json:"tags"`
      Version     int               `json:"version"`
      CreatedAt   string            `json:"created_at"`
      UpdatedAt   string            `json:"updated_at"`
  }
  \<close>
  and likewise \<^verbatim>\<open>Group\<close>, \<^verbatim>\<open>GroupSecrets\<close>, \<^verbatim>\<open>SecretsListResponse\<close> and
  \<^verbatim>\<open>ErrorResponse\<close>. Field names that several structs share carry the struct's name
  here. A Go \<^verbatim>\<open>int\<close> is an \<^typ>\<open>int\<close>: the client does no arithmetic on integers, and
  the decoder checks the 64-bit range.
\<close>

record Secret =
  ID :: string
  KeyName :: string
  Value :: string
  Description :: string
  Tags :: gomap
  Version :: int
  CreatedAt :: string
  UpdatedAt :: string

record Group =
  Group_ID :: string
  Name :: string
  Group_Description :: string
  Group_Tags :: gomap
  Group_CreatedAt :: string
  Group_UpdatedAt :: string

record GroupSecrets =
  GroupSecrets_Group :: string
  GroupSecrets_Tags :: gomap
  GroupSecrets_Secrets :: gomap
  Count :: int

record SecretsListResponse =
  Secrets :: "Secret list"
  Total :: int

record ErrorResponse =
  Error :: string

text \<open>The zero values (\<^verbatim>\<open>var secret Secret\<close>).\<close>

definition zero_Secret :: Secret where
  "zero_Secret = \<lparr>ID = [], KeyName = [], Value = [], Description = [], Tags = [],
     Version = 0, CreatedAt = [], UpdatedAt = []\<rparr>"

definition zero_Group :: Group where
  "zero_Group = \<lparr>Group_ID = [], Name = [], Group_Description = [], Group_Tags = [],
     Group_CreatedAt = [], Group_UpdatedAt = []\<rparr>"

definition zero_GroupSecrets :: GroupSecrets where
  "zero_GroupSecrets = \<lparr>GroupSecrets_Group = [], GroupSecrets_Tags = [],
     GroupSecrets_Secrets = [], Count = 0\<rparr>"

definition zero_SecretsListResponse :: SecretsListResponse where
  "zero_SecretsListResponse = \<lparr>Secrets = [], Total = 0\<rparr>"

definition zero_ErrorResponse :: ErrorResponse where
  "zero_ErrorResponse = \<lparr>Error = []\<rparr>"

text \<open>The decoders of the structs, one case per \<^verbatim>\<open>json\<close> tag.\<close>

definition Secret_field :: "string \<Rightarrow> json \<Rightarrow> Secret \<Rightarrow> Secret option" where
  "Secret_field k j s =
     (if field_is ''id'' k then map_option (\<lambda>x. s\<lparr>ID := x\<rparr>) (decode_string j (ID s))
      else if field_is ''key_name'' k then
        map_option (\<lambda>x. s\<lparr>KeyName := x\<rparr>) (decode_string j (KeyName s))
      else if field_is ''value'' k then
        map_option (\<lambda>x. s\<lparr>Value := x\<rparr>) (decode_string j (Value s))
      else if field_is ''description'' k then
        map_option (\<lambda>x. s\<lparr>Description := x\<rparr>) (decode_string j (Description s))
      else if field_is ''tags'' k then
        map_option (\<lambda>x. s\<lparr>Tags := x\<rparr>) (decode_map j (Tags s))
      else if field_is ''version'' k then
        map_option (\<lambda>x. s\<lparr>Version := x\<rparr>) (decode_int j (Version s))
      else if field_is ''created_at'' k then
        map_option (\<lambda>x. s\<lparr>CreatedAt := x\<rparr>) (decode_string j (CreatedAt s))
      else if field_is ''updated_at'' k then
        map_option (\<lambda>x. s\<lparr>UpdatedAt := x\<rparr>) (decode_string j (UpdatedAt s))
      else Some s)"

definition decode_Secret :: "json \<Rightarrow> Secret \<Rightarrow> Secret option" where
  "decode_Secret = decode_struct Secret_field"

text \<open>
  A slice is a window on a backing array. Decoding a JSON array into a slice stores
  element \<open>i\<close> into position \<open>i\<close> of the backing array, whatever is there: an
  element of the slice, an element that an earlier, longer array left behind beyond the
  length, or a zero element where the array was never used (a slice grows only when it
  is full, so growing loses nothing). The slice then has the length of the JSON array;
  an empty array and \<^verbatim>\<open>null\<close> give a slice with no backing array. So the state of
  the \<^verbatim>\<open>Secrets\<close> field while decoding is the slice together with the elements of its
  backing array beyond its length, which matter when a body repeats the member:
  \<^verbatim>\<open>
      if v.Kind() == reflect.Slice {
          if i >= v.Cap() { v.Grow(1) }
          if i >= v.Len() { v.SetLen(i + 1) }
      }
      if i < v.Len() {
          if err := d.value(v.Index(i)); err != nil { return err }
      }
      ...
      if i < v.Len() { v.SetLen(i) }
      if i == 0 && v.Kind() == reflect.Slice { v.Set(reflect.MakeSlice(v.Type(), 0, 0)) }
  \<close>
\<close>

fun decode_elems :: "json list \<Rightarrow> Secret list \<Rightarrow> Secret list option" where
  "decode_elems [] backing = Some []"
| "decode_elems (j # js) backing =
     (case decode_Secret j (case backing of [] \<Rightarrow> zero_Secret | s # _ \<Rightarrow> s) of
        None \<Rightarrow> None
      | Some s \<Rightarrow> map_option (Cons s) (decode_elems js (tl backing)))"

definition decode_Secret_slice ::
    "json \<Rightarrow> Secret list \<times> Secret list \<Rightarrow> (Secret list \<times> Secret list) option" where
  "decode_Secret_slice j cur =
     (case j of
        JArray js \<Rightarrow>
          (if js = [] then Some ([], [])
           else map_option (\<lambda>xs. (xs, drop (length js) (fst cur @ snd cur)))
                  (decode_elems js (fst cur @ snd cur)))
      | JNull \<Rightarrow> Some ([], [])
      | _ \<Rightarrow> None)"

text \<open>
  The decoder of \<^verbatim>\<open>SecretsListResponse\<close> carries the response and the elements beyond
  the length of its \<^verbatim>\<open>Secrets\<close>; \<open>Unmarshal_SecretsListResponse\<close> starts from the
  zero value and returns the response.
\<close>

definition SecretsListResponse_field ::
    "string \<Rightarrow> json \<Rightarrow> SecretsListResponse \<times> Secret list
      \<Rightarrow> (SecretsListResponse \<times> Secret list) option" where
  "SecretsListResponse_field k j r =
     (if field_is ''secrets'' k then
        map_option (\<lambda>(xs, stale). ((fst r)\<lparr>Secrets := xs\<rparr>, stale))
          (decode_Secret_slice j (Secrets (fst r), snd r))
      else if field_is ''total'' k then
        map_option (\<lambda>x. ((fst r)\<lparr>Total := x\<rparr>, snd r)) (decode_int j (Total (fst r)))
      else Some r)"

definition Unmarshal_SecretsListResponse :: "string \<Rightarrow> json_error + SecretsListResponse" where
  "Unmarshal_SecretsListResponse data =
     (case Unmarshal (decode_struct SecretsListResponse_field) data (zero_SecretsListResponse, []) of
        Inl err \<Rightarrow> Inl err
      | Inr r \<Rightarrow> Inr (fst r))"

definition Group_field :: "string \<Rightarrow> json \<Rightarrow> Group \<Rightarrow> Group option" where
  "Group_field k j g =
     (if field_is ''id'' k then map_option (\<lambda>x. g\<lparr>Group_ID := x\<rparr>) (decode_string j (Group_ID g))
      else if field_is ''name'' k then map_option (\<lambda>x. g\<lparr>Name := x\<rparr>) (decode_string j (Name g))
      else if field_is ''description'' k then
        map_option (\<lambda>x. g\<lparr>Group_Description := x\<rparr>) (decode_string j (Group_Description g))
      else if field_is ''tags'' k then
        map_option (\<lambda>x. g\<lparr>Group_Tags := x\<rparr>) (decode_map j (Group_Tags g))
      else if field_is ''created_at'' k then
        map_option (\<lambda>x. g\<lparr>Group_CreatedAt := x\<rparr>) (decode_string j (Group_CreatedAt g))
      else if field_is ''updated_at'' k then
        map_option (\<lambda>x. g\<lparr>Group_UpdatedAt := x\<rparr>) (decode_string j (Group_UpdatedAt g))
      else Some g)"

definition GroupSecrets_field :: "string \<Rightarrow> json \<Rightarrow> GroupSecrets \<Rightarrow> GroupSecrets option" where
  "GroupSecrets_field k j g =
     (if field_is ''group'' k then
        map_option (\<lambda>x. g\<lparr>GroupSecrets_Group := x\<rparr>) (decode_string j (GroupSecrets_Group g))
      else if field_is ''tags'' k then
        map_option (\<lambda>x. g\<lparr>GroupSecrets_Tags := x\<rparr>) (decode_map j (GroupSecrets_Tags g))
      else if field_is ''secrets'' k then
        map_option (\<lambda>x. g\<lparr>GroupSecrets_Secrets := x\<rparr>) (decode_map j (GroupSecrets_Secrets g))
      else if field_is ''count'' k then map_option (\<lambda>x. g\<lparr>Count := x\<rparr>) (decode_int j (Count g))
      else Some g)"

definition ErrorResponse_field :: "string \<Rightarrow> json \<Rightarrow> ErrorResponse \<Rightarrow> ErrorResponse option" where
  "ErrorResponse_field k j e =
     (if field_is ''error'' k then map_option (\<lambda>x. e\<lparr>Error := x\<rparr>) (decode_string j (Error e))
      else Some e)"

subsection \<open>tagsMatch\<close>

text \<open>
  \<^verbatim>\<open>
  // tagsMatch checks if secret tags contain all required tags
  func tagsMatch(secretTags, requiredTags map[string]string) bool {
      for k, v := range requiredTags {
          if secretTags[k] != v {
              return false
          }
      }
      return true
  }
  \<close>
\<close>

fun tagsMatch :: "gomap \<Rightarrow> gomap \<Rightarrow> bool" where
  "tagsMatch secretTags [] = True"
| "tagsMatch secretTags ((k, v) # requiredTags) =
     (if map_index secretTags k \<noteq> v then False else tagsMatch secretTags requiredTags)"

subsection \<open>Errors\<close>

text \<open>
  Every error of the client is made by \<^verbatim>\<open>fmt.Errorf\<close>; one constructor stands for each
  format string, with the arguments it is given:
  \<^item> \<open>CreateRequestError\<close>: \<^verbatim>\<open>"failed to create request: %w"\<close>;
  \<^item> \<open>RequestError\<close>: \<^verbatim>\<open>"request failed: %w"\<close>;
  \<^item> \<open>ReadBodyError\<close>: \<^verbatim>\<open>"failed to read response body: %w"\<close>;
  \<^item> \<open>APIError\<close>: \<^verbatim>\<open>"API error (%d): %s"\<close>, the status code and the message;
  \<^item> \<open>ParseSecretError\<close>, \<open>ParseSecretsListError\<close>, \<open>ParseGroupError\<close>,
    \<open>ParseGroupSecretsError\<close>: \<^verbatim>\<open>"failed to parse ... response: %w"\<close>;
  \<^item> \<open>NotFoundError\<close>: \<^verbatim>\<open>"secret '%s' not found with specified tags"\<close>.
\<close>

datatype error =
    CreateRequestError string
  | RequestError string
  | ReadBodyError string
  | APIError int string
  | ParseSecretError json_error
  | ParseSecretsListError json_error
  | ParseGroupError json_error
  | ParseGroupSecretsError json_error
  | NotFoundError string

subsection \<open>The client and its construction\<close>

text \<open>
  \<^verbatim>\<open>
  func NewClient(baseURL, apiKey string) *Client {
      return &Client{
          BaseURL: strings.TrimRight(baseURL, "/"),
          APIKey:  apiKey,
          HTTPClient: &http.Client{ Timeout: 30 * time.Second },
      }
  }
  \<close>
  A \<^verbatim>\<open>time.Duration\<close> counts nanoseconds.
\<close>

record http_Client =
  Timeout :: int

record Client =
  BaseURL :: string
  APIKey :: string
  HTTPClient :: http_Client

definition Second :: int where
  "Second = 1000000000"

definition NewClient :: "string \<Rightarrow> string \<Rightarrow> Client" where
  "NewClient baseURL apiKey =
     \<lparr>BaseURL = TrimRight baseURL ''/'', APIKey = apiKey,
      HTTPClient = \<lparr>Timeout = 30 * Second\<rparr>\<rparr>"

subsection \<open>The network\<close>

text \<open>
  The client reaches the network through \<^verbatim>\<open>http.NewRequest\<close>, \<^verbatim>\<open>HTTPClient.Do\<close> and
  \<^verbatim>\<open>io.ReadAll\<close>. They are the environment of the model, a \<open>transport\<close>:
  \<open>NewRequest\<close> gives the error of \<^verbatim>\<open>http.NewRequest(method, url, nil)\<close> if it has
  one; \<open>Do\<close> gives what sending a request and reading the body of the response leads
  to, which may depend on the calls made before. Every operation takes the list of the
  calls made so far and returns it extended with its own, so that the requests an
  operation makes can be read off its result.
\<close>

record request =
  Method :: string
  URL :: string
  Header :: Values

datatype call = Call_NewRequest string string | Call_Do request

datatype outcome = DoError string | ReadError int string | Response int string

record transport =
  NewRequest :: "string \<Rightarrow> string \<Rightarrow> string option"
  Do :: "call list \<Rightarrow> request \<Rightarrow> outcome"

subsection \<open>doRequest\<close>

text \<open>
  \<^verbatim>\<open>
  func (c *Client) doRequest(method, endpoint string, params url.Values) ([]byte, error) {
      reqURL := fmt.Sprintf("%s%s", c.BaseURL, endpoint)
      if params != nil && len(params) > 0 {
          reqURL = fmt.Sprintf("%s?%s", reqURL, params.Encode())
      }
      req, err := http.NewRequest(method, reqURL, nil)
      if err != nil { return nil, fmt.Errorf("failed to create request: %w", err) }
      req.Header.Set("Authorization", fmt.Sprintf("Bearer %s", c.APIKey))
      req.Header.Set("Content-Type", "application/json")
      resp, err := c.HTTPClient.Do(req)
      if err != nil { return nil, fmt.Errorf("request failed: %w", err) }
      defer resp.Body.Close()
      body, err := io.ReadAll(resp.Body)
      if err != nil { return nil, fmt.Errorf("failed to read response body: %w", err) }
      if resp.StatusCode >= 400 {
          var errResp ErrorResponse
          if err := json.Unmarshal(body, &errResp); err == nil && errResp.Error != "" {
              return nil, fmt.Errorf("API error (%d): %s", resp.StatusCode, errResp.Error)
          }
          return nil, fmt.Errorf("API error (%d): %s", resp.StatusCode, string(body))
      }
      return body, nil
  }
  \<close>
  \<open>request_url\<close> is the value of \<^verbatim>\<open>reqURL\<close> when \<^verbatim>\<open>http.NewRequest\<close> is called and
  \<open>new_request\<close> the request handed to \<^verbatim>\<open>HTTPClient.Do\<close>: the method, the URL and
  the two headers.
\<close>

definition request_url :: "Client \<Rightarrow> string \<Rightarrow> Values \<Rightarrow> string" where
  "request_url c endpoint params =
     (let reqURL = BaseURL c @ endpoint
      in if params \<noteq> [] then reqURL @ ''?'' @ Values_Encode params else reqURL)"

definition new_request :: "Client \<Rightarrow> string \<Rightarrow> string \<Rightarrow> request" where
  "new_request c method reqURL =
     \<lparr>Method = method, URL = reqURL,
      Header = Values_Set (Values_Set [] ''Authorization'' (''Bearer '' @ APIKey c))
                 ''Content-Type'' ''application/json''\<rparr>"

definition doRequest ::
    "transport \<Rightarrow> Client \<Rightarrow> string \<Rightarrow> string \<Rightarrow> Values \<Rightarrow> call list \<Rightarrow> (error + string) \<times> call list" where
  "doRequest t c method endpoint params tr =
     (let reqURL = request_url c endpoint params;
          tr1 = tr @ [Call_NewRequest method reqURL]
      in case NewRequest t method reqURL of
           Some err \<Rightarrow> (Inl (CreateRequestError err), tr1)
         | None \<Rightarrow>
             (let req = new_request c method reqURL;
                  tr2 = tr1 @ [Call_Do req]
              in case Do t tr1 req of
                   DoError err \<Rightarrow> (Inl (RequestError err), tr2)
                 | ReadError status err \<Rightarrow> (Inl (ReadBodyError err), tr2)
                 | Response status body \<Rightarrow>
                     if 400 \<le> status then
                       (case Unmarshal (decode_struct ErrorResponse_field) body zero_ErrorResponse of
                          Inr errResp \<Rightarrow>
                            if Error errResp \<noteq> [] then (Inl (APIError status (Error errResp)), tr2)
                            else (Inl (APIError status body), tr2)
                        | Inl err \<Rightarrow> (Inl (APIError status body), tr2))
                     else (Inr body, tr2)))"

subsection \<open>GetSecret\<close>

text \<open>
  \<^verbatim>\<open>
  func (c *Client) GetSecret(secretID string, version *int) (*Secret, error) {
      endpoint := fmt.Sprintf("/api/v1/secrets/%s", secretID)
      params := url.Values{}
      if version != nil { params.Set("version", fmt.Sprintf("%d", *version)) }
      body, err := c.doRequest("GET", endpoint, params)
      if err != nil { return nil, err }
      var secret Secret
      if err := json.Unmarshal(body, &secret); err != nil {
          return nil, fmt.Errorf("failed to parse secret response: %w", err)
      }
      return &secret, nil
  }
  \<close>
\<close>

definition GetSecret ::
    "transport \<Rightarrow> Client \<Rightarrow> string \<Rightarrow> int option \<Rightarrow> call list \<Rightarrow> (error + Secret) \<times> call list" where
  "GetSecret t c secretID version tr =
     (let endpoint = ''/api/v1/secrets/'' @ secretID;
          params = (case version of None \<Rightarrow> [] | Some v \<Rightarrow> Values_Set [] ''version'' (Itoa v))
      in case doRequest t c ''GET'' endpoint params tr of
           (Inl err, tr') \<Rightarrow> (Inl err, tr')
         | (Inr body, tr') \<Rightarrow>
             (case Unmarshal decode_Secret body zero_Secret of
                Inl err \<Rightarrow> (Inl (ParseSecretError err), tr')
              | Inr secret \<Rightarrow> (Inr secret, tr')))"

subsection \<open>ListSecrets\<close>

text \<open>
  \<^verbatim>\<open>
  func (c *Client) ListSecrets(tags map[string]string, search string, limit int)
          (*SecretsListResponse, error) {
      params := url.Values{}
      for k, v := range tags { params.Set(k, v) }
      if search != "" { params.Set("search", search) }
      if limit > 0 { params.Set("limit", fmt.Sprintf("%d", limit)) }
      body, err := c.doRequest("GET", "/api/v1/secrets", params)
      if err != nil { return nil, err }
      var resp SecretsListResponse
      if err := json.Unmarshal(body, &resp); err != nil {
          return nil, fmt.Errorf("failed to parse secrets list response: %w", err)
      }
      return &resp, nil
  }
  \<close>
  \<open>tags_params\<close> is the loop over the tags and \<open>ListSecrets_params\<close> the value of
  \<^verbatim>\<open>params\<close> when \<^verbatim>\<open>doRequest\<close> is called.
\<close>

fun tags_params :: "gomap \<Rightarrow> Values \<Rightarrow> Values" where
  "tags_params [] params = params"
| "tags_params ((k, v) # tags) params = tags_params tags (Values_Set params k v)"

definition ListSecrets_params :: "gomap \<Rightarrow> string \<Rightarrow> int \<Rightarrow> Values" where
  "ListSecrets_params tags search limit =
     (let params = tags_params tags [];
          params = (if search \<noteq> [] then Values_Set params ''search'' search else params);
          params = (if 0 < limit then Values_Set params ''limit'' (Itoa limit) else params)
      in params)"

definition ListSecrets ::
    "transport \<Rightarrow> Client \<Rightarrow> gomap \<Rightarrow> string \<Rightarrow> int \<Rightarrow> call list
      \<Rightarrow> (error + SecretsListResponse) \<times> call list" where
  "ListSecrets t c tags search limit tr =
     (case doRequest t c ''GET'' ''/api/v1/secrets'' (ListSecrets_params tags search limit) tr of
        (Inl err, tr') \<Rightarrow> (Inl err, tr')
      | (Inr body, tr') \<Rightarrow>
          (case Unmarshal_SecretsListResponse body of
             Inl err \<Rightarrow> (Inl (ParseSecretsListError err), tr')
           | Inr resp \<Rightarrow> (Inr resp, tr')))"

subsection \<open>FindSecret\<close>

text \<open>
  \<^verbatim>\<open>
  func (c *Client) FindSecret(name string, tags map[string]string) (*Secret, error) {
      // List secrets with the given tags and search for the name
      resp, err := c.ListSecrets(tags, name, 100)
      if err != nil { return nil, err }
      // Find exact match
      for _, s := range resp.Secrets {
          if strings.EqualFold(s.KeyName, name) {
              // Tags must match exactly
              if tagsMatch(s.Tags, tags) {
                  // Get the full secret with value
                  return c.GetSecret(s.ID, nil)
              }
          }
      }
      return nil, fmt.Errorf("secret '%s' not found with specified tags", name)
  }
  \<close>
  \<open>uf\<close> is the case-folding table that \<^verbatim>\<open>strings.EqualFold\<close> consults.
\<close>

fun FindSecret_loop ::
    "fold_table \<Rightarrow> transport \<Rightarrow> Client \<Rightarrow> string \<Rightarrow> gomap \<Rightarrow> Secret list \<Rightarrow> call list
      \<Rightarrow> (error + Secret) \<times> call list" where
  "FindSecret_loop uf t c name tags [] tr = (Inl (NotFoundError name), tr)"
| "FindSecret_loop uf t c name tags (s # ss) tr =
     (if EqualFold uf (KeyName s) name then
        (if tagsMatch (Tags s) tags then GetSecret t c (ID s) None tr
         else FindSecret_loop uf t c name tags ss tr)
      else FindSecret_loop uf t c name tags ss tr)"

definition FindSecret ::
    "fold_table \<Rightarrow> transport \<Rightarrow> Client \<Rightarrow> string \<Rightarrow> gomap \<Rightarrow> call list
      \<Rightarrow> (error + Secret) \<times> call list" where
  "FindSecret uf t c name tags tr =
     (case ListSecrets t c tags name 100 tr of
        (Inl err, tr') \<Rightarrow> (Inl err, tr')
      | (Inr resp, tr') \<Rightarrow> FindSecret_loop uf t c name tags (Secrets resp) tr')"

subsection \<open>GetGroup and PullGroupSecrets\<close>

text \<open>
  \<^verbatim>\<open>
  func (c *Client) GetGroup(name string) (*Group, error) {
      endpoint := fmt.Sprintf("/api/v1/groups/%s", url.PathEscape(name))
      body, err := c.doRequest("GET", endpoint, nil)
      ...
  func (c *Client) PullGroupSecrets(name string) (*GroupSecrets, error) {
      endpoint := fmt.Sprintf("/api/v1/groups/%s/secrets", url.PathEscape(name))
      params := url.Values{}
      params.Set("format", "json")
      body, err := c.doRequest("GET", endpoint, params)
      ...
  \<close>
  Both then decode the body as \<^verbatim>\<open>GetSecret\<close> does, into a \<^verbatim>\<open>Group\<close> and a
  \<^verbatim>\<open>GroupSecrets\<close>.
\<close>

definition GetGroup ::
    "transport \<Rightarrow> Client \<Rightarrow> string \<Rightarrow> call list \<Rightarrow> (error + Group) \<times> call list" where
  "GetGroup t c name tr =
     (let endpoint = ''/api/v1/groups/'' @ PathEscape name
      in case doRequest t c ''GET'' endpoint [] tr of
           (Inl err, tr') \<Rightarrow> (Inl err, tr')
         | (Inr body, tr') \<Rightarrow>
             (case Unmarshal (decode_struct Group_field) body zero_Group of
                Inl err \<Rightarrow> (Inl (ParseGroupError err), tr')
              | Inr grp \<Rightarrow> (Inr grp, tr')))"

definition PullGroupSecrets ::
    "transport \<Rightarrow> Client \<Rightarrow> string \<Rightarrow> call list \<Rightarrow> (error + GroupSecrets) \<times> call list" where
  "PullGroupSecrets t c name tr =
     (let endpoint = ''/api/v1/groups/'' @ PathEscape name @ ''/secrets'';
          params = Values_Set [] ''format'' ''json''
      in case doRequest t c ''GET'' endpoint params tr of
           (Inl err, tr') \<Rightarrow> (Inl err, tr')
         | (Inr body, tr') \<Rightarrow>
             (case Unmarshal (decode_struct GroupSecrets_field) body zero_GroupSecrets of
                Inl err \<Rightarrow> (Inl (ParseGroupSecretsError err), tr')
              | Inr secrets \<Rightarrow> (Inr secrets, tr')))"

subsection \<open>Reading the calls\<close>

text \<open>The method and URL of each request the client asked \<^verbatim>\<open>net/http\<close> to make, in order.\<close>

definition requested :: "call list \<Rightarrow> (string \<times> string) list" where
  "requested tr =
     concat (map (\<lambda>e. case e of Call_NewRequest m u \<Rightarrow> [(m, u)] | Call_Do r \<Rightarrow> []) tr)"

subsection \<open>Examples\<close>

text \<open>
  A part of Unicode's case-folding table, for the examples: the Kelvin sign with \<open>K\<close>
  and \<open>k\<close>, the long s with \<open>S\<close> and \<open>s\<close>, and the capital letters of Latin-1
  (U+00C0 to U+00DE, but for the multiplication sign) with their small letters.
\<close>

definition latin_fold :: fold_table where
  "latin_fold sr tr =
     ((sr = 0x4B \<or> sr = 0x6B) \<and> tr = 0x212A
      \<or> (sr = 0x53 \<or> sr = 0x73) \<and> tr = 0x17F
      \<or> 0xC0 \<le> sr \<and> sr \<le> 0xDE \<and> sr \<noteq> 0xD7 \<and> tr = sr + 32)"

text \<open>
  A client for \<open>https://api.example.com/\<close> and a server. For the tag \<open>env=prod\<close>
  the server lists, for the search \<open>db_pass\<close>, three secrets: \<open>db_pass_old\<close>
  with that tag, \<open>db_pass\<close> with another tag and \<open>DB_PASS\<close> with that tag; for the
  search \<open>db\<close> the first of them alone; for the search \<open>api_key\<close> one secret
  whose own endpoint answers with status 500; for the search \<open>caf\<close>\<open>e\<close> with an
  acute accent (bytes C3 A9) the same name in capital letters (C3 89), then the name
  itself. It knows the secrets \<open>2\<close> and \<open>8\<close> and the group \<open>g\<close>, and answers
  every other request with status 404.
\<close>

definition example_client :: Client where
  "example_client = NewClient ''https://api.example.com/'' ''key''"

definition example_server :: transport where
  \<open>example_server =
     \<lparr>NewRequest = (\<lambda>method url. None),
      Do = (\<lambda>tr req.
        if URL req = ''https://api.example.com/api/v1/secrets?env=prod&limit=100&search=db_pass''
        then Response 200
          ''{"secrets":[{"id":"0","key_name":"db_pass_old","tags":{"env":"prod"}},{"id":"1","key_name":"db_pass","tags":{"env":"dev"}},{"id":"2","key_name":"DB_PASS","tags":{"env":"prod","app":"web"}}],"total":3}''
        else if URL req = ''https://api.example.com/api/v1/secrets/2''
        then Response 200
          ''{"id":"2","key_name":"DB_PASS","value":"s3cret","tags":{"env":"prod","app":"web"},"version":4}''
        else if URL req = ''https://api.example.com/api/v1/secrets?env=prod&limit=100&search=api_key''
        then Response 200 ''{"secrets":[{"id":"7","key_name":"api_key","tags":{"env":"prod"}}],"total":1}''
        else if URL req = ''https://api.example.com/api/v1/secrets?env=prod&limit=100&search=db''
        then Response 200 ''{"secrets":[{"id":"0","key_name":"db_pass_old","tags":{"env":"prod"}}],"total":1}''
        else if URL req = ''https://api.example.com/api/v1/secrets/7''
        then Response 500 ''upstream timeout''
        else if URL req = ''https://api.example.com/api/v1/secrets?env=prod&limit=100&search=caf%C3%A9''
        then Response 200
          (''{"secrets":[{"id":"8","key_name":"CAF'' @ [CHR 0xC3, CHR 0x89]
           @ ''","tags":{"env":"prod"}},{"id":"9","key_name":"caf'' @ [CHR 0xC3, CHR 0xA9]
           @ ''","tags":{"env":"prod"}}],"total":2}'')
        else if URL req = ''https://api.example.com/api/v1/secrets/8''
        then Response 200 ''{"id":"8","value":"latte","tags":{"env":"prod"},"version":1}''
        else if URL req = ''https://api.example.com/api/v1/groups/g/secrets?format=json''
        then Response 200 ''{"group":"g","tags":{},"secrets":{"A":"1","B":"2"},"count":2}''
        else Response 404 ''{"error": "not found"}'')\<rparr>\<close>

text \<open>A server that accepts every request and answers each with one fixed response.\<close>

definition fixed_server :: "int \<Rightarrow> string \<Rightarrow> transport" where
  "fixed_server status body =
     \<lparr>NewRequest = (\<lambda>method url. None), Do = (\<lambda>tr req. Response status body)\<rparr>"

section \<open>Properties\<close>

subsection \<open>tagsMatch\<close>

lemma tagsMatch_iff:
  "tagsMatch C T \<longleftrightarrow> (\<forall>(k, v) \<in> set T. map_index C k = v)"
  by (induction T) (auto split: if_splits)

lemma tagsMatch_nonempty_values:
  assumes "\<forall>(k, v) \<in> set T. v \<noteq> []"
  shows "tagsMatch C T \<longleftrightarrow> (\<forall>(k, v) \<in> set T. map_of C k = Some v)"
  using assms by (fastforce simp: tagsMatch_iff map_index_def split: option.splits)

lemma map_index_update:
  "map_index (AList.update k v C) k' = (if k' = k then v else map_index C k')"
  by (simp add: map_index_def update_conv')

text \<open>
  C1. The specification states that \<open>tagsMatch C T\<close> is true iff every key of
  \<open>T\<close> is present in \<open>C\<close> with an equal value, and false when a key of \<open>T\<close>
  is missing from \<open>C\<close>; the function's comment says that it checks whether the
  secret's tags contain all required tags. The code reads \<^verbatim>\<open>secretTags[k]\<close>, which
  is the empty string for a missing key: with the required tags \<open>{env: ""}\<close> and a
  candidate without any tag, the key \<open>env\<close> is missing from the candidate and
  \<open>tagsMatch\<close> still returns true. (\<open>tagsMatch_nonempty_values\<close> above: the
  statement holds whenever no required value is empty.)
\<close>

theorem tagsMatch_missing_key_accepted:
  "map_of ([] :: gomap) ''env'' = None \<and> tagsMatch [] [(''env'', '''')] = True"
  by (simp add: map_index_def)

text \<open>
  C8. A required tag whose value is the empty string is satisfied by a candidate that
  lacks the key: when \<open>k\<close> is not a key of the candidate \<open>C\<close>, \<open>tagsMatch\<close> gives
  the same answer on \<open>C\<close> as on \<open>C\<close> extended with \<open>k\<close> mapped to the empty
  string, for every required map; in particular it accepts the required map
  \<open>{k: ""}\<close>.
\<close>

theorem tagsMatch_missing_as_empty:
  assumes "map_of C k = None"
  shows "tagsMatch C T = tagsMatch (AList.update k '''' C) T \<and> tagsMatch C [(k, '''')]"
proof -
  have "map_index C k' = map_index (AList.update k '''' C) k'" for k'
    using assms by (simp add: map_index_update) (simp add: map_index_def)
  then have "tagsMatch C T = tagsMatch (AList.update k '''' C) T"
    by (simp add: tagsMatch_iff)
  moreover have "tagsMatch C [(k, '''')]"
    using assms by (simp add: map_index_def)
  ultimately show ?thesis by simp
qed

theorem tagsMatch_missing_as_empty_witness:
  "map_of [(''app'', ''web'')] ''env'' = None
   \<and> tagsMatch [(''app'', ''web'')] [(''env'', ''''), (''app'', ''web'')]
   \<and> tagsMatch [(''app'', ''web'')] [(''env'', '''')]"
proof -
  have h: "map_of [(''app'', ''web'')] ''env'' = None" by simp
  show ?thesis
    using h tagsMatch_missing_as_empty [OF h, of "[(''env'', ''''), (''app'', ''web'')]"]
    by (simp add: map_index_def)
qed

subsection \<open>The calls of each operation\<close>

lemma requested_append: "requested (a @ b) = requested a @ requested b"
  by (simp add: requested_def)

lemma doRequest_calls:
  "\<exists>G. snd (doRequest t c m e p tr) = tr @ G \<and> requested G = [(m, request_url c e p)]"
  by (simp add: doRequest_def requested_def Let_def
           split: option.splits outcome.splits sum.splits)

lemma doRequest_requested:
  "requested (snd (doRequest t c m e p tr)) = requested tr @ [(m, request_url c e p)]"
  using doRequest_calls [of t c m e p tr] by (auto simp: requested_append)

lemma GetSecret_calls:
  "snd (GetSecret t c secretID version tr) =
   snd (doRequest t c ''GET'' (''/api/v1/secrets/'' @ secretID)
          (case version of None \<Rightarrow> [] | Some v \<Rightarrow> Values_Set [] ''version'' (Itoa v)) tr)"
  by (simp add: GetSecret_def Let_def split: prod.splits sum.splits)

lemma ListSecrets_calls:
  "snd (ListSecrets t c tags search limit tr) =
   snd (doRequest t c ''GET'' ''/api/v1/secrets'' (ListSecrets_params tags search limit) tr)"
  by (simp add: ListSecrets_def split: prod.splits sum.splits)

lemma GetGroup_calls:
  "snd (GetGroup t c name tr) =
   snd (doRequest t c ''GET'' (''/api/v1/groups/'' @ PathEscape name) [] tr)"
  by (simp add: GetGroup_def Let_def split: prod.splits sum.splits)

lemma PullGroupSecrets_calls:
  "snd (PullGroupSecrets t c name tr) =
   snd (doRequest t c ''GET'' (''/api/v1/groups/'' @ PathEscape name @ ''/secrets'')
          (Values_Set [] ''format'' ''json'') tr)"
  by (simp add: PullGroupSecrets_def Let_def split: prod.splits sum.splits)

lemma Values_Encode_single:
  "Values_Encode (Values_Set [] k v) = QueryEscape k @ ''='' @ QueryEscape v"
  by (simp add: Values_Encode_def Values_Set_def)

lemma Values_Set_not_empty: "Values_Set v k x \<noteq> []"
  by (cases v) (auto simp: Values_Set_def)

lemma QueryEscape_format: "QueryEscape ''format'' = ''format''"
  by code_simp

lemma QueryEscape_json: "QueryEscape ''json'' = ''json''"
  by code_simp

lemma QueryEscape_version: "QueryEscape ''version'' = ''version''"
  by code_simp

lemma PathEscape_x: "PathEscape ''x'' = ''x''"
  by code_simp

lemma PathEscape_a_b: "PathEscape ''a/b'' = ''a%2Fb''"
  by code_simp

lemma TrimRight_example:
  "TrimRight ''https://api.example.com/'' ''/'' = ''https://api.example.com''"
  by code_simp

lemma TrimRight_slash:
  "\<exists>n. b = TrimRight b ''/'' @ replicate n (CHR ''/'')
       \<and> \<not> (TrimRight b ''/'' \<noteq> [] \<and> last (TrimRight b ''/'') = CHR ''/'')"
proof -
  let ?P = "\<lambda>c. c = CHR ''/''"
  have 1: "rev b = takeWhile ?P (rev b) @ dropWhile ?P (rev b)" by simp
  have 2: "takeWhile ?P (rev b) = replicate (length (takeWhile ?P (rev b))) (CHR ''/'')"
    by (rule replicate_length_same[symmetric]) (auto dest: set_takeWhileD)
  have "b = rev (dropWhile ?P (rev b)) @ rev (takeWhile ?P (rev b))"
    using 1 by (metis rev_append rev_rev_ident)
  then have 3: "b = TrimRight b ''/'' @ replicate (length (takeWhile ?P (rev b))) (CHR ''/'')"
    using 2 by (simp add: TrimRight_def) (metis rev_replicate)
  have 4: "\<not> (TrimRight b ''/'' \<noteq> [] \<and> last (TrimRight b ''/'') = CHR ''/'')"
  proof
    assume a: "TrimRight b ''/'' \<noteq> [] \<and> last (TrimRight b ''/'') = CHR ''/''"
    then have ne: "dropWhile ?P (rev b) \<noteq> []" by (simp add: TrimRight_def)
    then have "\<not> ?P (hd (dropWhile ?P (rev b)))" by (rule hd_dropWhile)
    moreover have "last (TrimRight b ''/'') = hd (dropWhile ?P (rev b))"
      using ne by (simp add: TrimRight_def last_rev)
    ultimately show False using a by simp
  qed
  show ?thesis using 3 4 by blast
qed

subsection \<open>Base URL and request paths\<close>

text \<open>
  C6. \<open>NewClient\<close> strips every trailing slash of the base URL: the given URL is the
  stored one followed by slashes only, and the stored one does not end with a slash. A
  client built with \<open>https://api.example.com/\<close> asks for
  \<open>https://api.example.com/api/v1/groups/x\<close> in \<open>GetGroup "x"\<close>.
\<close>

theorem NewClient_strips_trailing_slashes:
  "(\<exists>n. b = BaseURL (NewClient b k) @ replicate n (CHR ''/'')
        \<and> \<not> (BaseURL (NewClient b k) \<noteq> [] \<and> last (BaseURL (NewClient b k)) = CHR ''/''))
   \<and> requested (snd (GetGroup t (NewClient ''https://api.example.com/'' k) ''x'' tr))
       = requested tr @ [(''GET'', ''https://api.example.com/api/v1/groups/x'')]"
proof -
  have "requested (snd (GetGroup t (NewClient ''https://api.example.com/'' k) ''x'' tr))
       = requested tr @ [(''GET'', ''https://api.example.com/api/v1/groups/x'')]"
    by (simp add: GetGroup_calls doRequest_requested request_url_def NewClient_def
          TrimRight_example PathEscape_x)
  moreover have "\<exists>n. b = BaseURL (NewClient b k) @ replicate n (CHR ''/'')
        \<and> \<not> (BaseURL (NewClient b k) \<noteq> [] \<and> last (BaseURL (NewClient b k)) = CHR ''/'')"
    using TrimRight_slash [of b] by (simp add: NewClient_def)
  ultimately show ?thesis by blast
qed

text \<open>
  C10. \<open>GetSecret\<close> puts the secret ID into the path as it is, while \<open>GetGroup\<close> and
  \<open>PullGroupSecrets\<close> path-escape the group name. For the ID \<open>a/b\<close> the path
  requested is \<open>/api/v1/secrets/a/b\<close>, where escaping would give
  \<open>/api/v1/secrets/a%2Fb\<close>.
\<close>

theorem GetSecret_path_not_escaped:
  "requested (snd (GetSecret t c secretID version tr))
     = requested tr @ [(''GET'', BaseURL c @ ''/api/v1/secrets/'' @ secretID
         @ (case version of None \<Rightarrow> [] | Some v \<Rightarrow> ''?version='' @ QueryEscape (Itoa v)))]
   \<and> requested (snd (GetGroup t c name tr))
     = requested tr @ [(''GET'', BaseURL c @ ''/api/v1/groups/'' @ PathEscape name)]
   \<and> requested (snd (PullGroupSecrets t c name tr))
     = requested tr
       @ [(''GET'', BaseURL c @ ''/api/v1/groups/'' @ PathEscape name @ ''/secrets?format=json'')]
   \<and> requested (snd (GetSecret t c ''a/b'' None tr))
     = requested tr @ [(''GET'', BaseURL c @ ''/api/v1/secrets/a/b'')]
   \<and> PathEscape ''a/b'' = ''a%2Fb''
   \<and> ''/api/v1/secrets/'' @ ''a/b'' \<noteq> ''/api/v1/secrets/'' @ PathEscape ''a/b''"
proof -
  have 1: "requested (snd (GetSecret t c i v tr))
     = requested tr @ [(''GET'', BaseURL c @ ''/api/v1/secrets/'' @ i
         @ (case v of None \<Rightarrow> [] | Some v \<Rightarrow> ''?version='' @ QueryEscape (Itoa v)))]" for i v
    by (cases v)
       (simp_all add: GetSecret_calls doRequest_requested request_url_def Values_Set_not_empty
          Values_Encode_single QueryEscape_version)
  have 2: "requested (snd (GetGroup t c name tr))
     = requested tr @ [(''GET'', BaseURL c @ ''/api/v1/groups/'' @ PathEscape name)]"
    by (simp add: GetGroup_calls doRequest_requested request_url_def)
  have 3: "requested (snd (PullGroupSecrets t c name tr))
     = requested tr
       @ [(''GET'', BaseURL c @ ''/api/v1/groups/'' @ PathEscape name @ ''/secrets?format=json'')]"
    by (simp add: PullGroupSecrets_calls doRequest_requested request_url_def
          Values_Set_not_empty Values_Encode_single QueryEscape_format QueryEscape_json)
  have 4: "requested (snd (GetSecret t c ''a/b'' None tr))
     = requested tr @ [(''GET'', BaseURL c @ ''/api/v1/secrets/a/b'')]"
    using 1 [of "''a/b''" None] by simp
  have 5: "''/api/v1/secrets/'' @ ''a/b'' \<noteq> ''/api/v1/secrets/'' @ PathEscape ''a/b''"
    by (simp add: PathEscape_a_b)
  show ?thesis using 1 [of secretID version] 2 3 4 5 PathEscape_a_b by blast
qed

subsection \<open>The name test\<close>

text \<open>
  \<open>EqualFold\<close> holds of a string and itself, and on ASCII strings it is equality up
  to the case of the letters, whatever the case-folding table is.
\<close>

definition isASCII :: "string \<Rightarrow> bool" where
  "isASCII s = (\<forall>c \<in> set s. of_char c < (0x80 :: nat))"

lemma rune_fold_eq_refl: "rune_fold_eq uf r r"
  by (simp add: rune_fold_eq_def)

lemma EqualFold_runes_refl: "EqualFold_runes uf rs rs"
  by (induction rs) (simp_all add: rune_fold_eq_refl)

lemma EqualFold_refl: "EqualFold uf s s"
  by (induction s) (simp_all add: EqualFold_runes_refl)

lemma of_char_toLower:
  "(of_char (toLower c) :: nat) =
     (if 65 \<le> (of_char c :: nat) \<and> (of_char c :: nat) \<le> 90 then of_char c + 32 else of_char c)"
  by (simp add: toLower_def isUpper_def less_eq_char_def)

lemma toLower_eq_iff:
  assumes "a \<noteq> b"
  shows "(isUpper (min a b) \<and> of_char (max a b) = (of_char (min a b) :: nat) + 32)
         \<longleftrightarrow> toLower a = toLower b"
proof -
  have n: "(of_char a :: nat) \<noteq> of_char b"
    using assms by simp
  have "toLower a = toLower b \<longleftrightarrow> (of_char (toLower a) :: nat) = of_char (toLower b)"
    by simp
  then show ?thesis
    using n
    by (cases "a \<le> b")
       (auto simp: of_char_toLower isUpper_def less_eq_char_def min_def max_def)
qed

lemma EqualFold_ASCII:
  "isASCII s \<Longrightarrow> isASCII t \<Longrightarrow> EqualFold uf s t \<longleftrightarrow> map toLower s = map toLower t"
proof (induction uf s t rule: EqualFold.induct)
  case (1 uf t)
  then show ?case by auto
next
  case (2 uf sr s)
  then show ?case by simp
next
  case (3 uf sr s tr t)
  then show ?case
    using toLower_eq_iff [of sr tr]
    by (auto simp: isASCII_def)
qed

lemma EqualFold_DB_PASS: "EqualFold uf ''DB_PASS'' ''db_pass''"
  by (simp add: isUpper_def)

lemma EqualFold_db_pass_old: "\<not> EqualFold uf ''db_pass_old'' ''db_pass''"
  by (simp add: isUpper_def)

lemma EqualFold_cafe:
  "EqualFold latin_fold (''CAF'' @ [CHR 0xC3, CHR 0x89]) (''caf'' @ [CHR 0xC3, CHR 0xA9])"
  by code_simp

subsection \<open>FindSecret\<close>

lemma FindSecret_loop_find:
  "FindSecret_loop uf t c name tags ss tr =
     (case find (\<lambda>s. EqualFold uf (KeyName s) name \<and> tagsMatch (Tags s) tags) ss of
        Some s \<Rightarrow> GetSecret t c (ID s) None tr
      | None \<Rightarrow> (Inl (NotFoundError name), tr))"
  by (induction ss) simp_all

text \<open>
  C2. When the list call returns the secrets \<open>Secrets resp\<close>, \<open>FindSecret\<close> is the
  result of \<open>GetSecret\<close> on the ID of the first entry, in the order of the response,
  whose key name equals the name up to case (\<^verbatim>\<open>strings.EqualFold\<close>, for every
  case-folding table) and whose tags satisfy \<open>tagsMatch\<close>; when there is no such entry
  it fails with \<open>NotFoundError\<close> and the calls made are those of the list call alone.
\<close>

theorem FindSecret_first_match:
  assumes "ListSecrets t c tags name 100 tr = (Inr resp, tr')"
  shows "FindSecret uf t c name tags tr =
     (case find (\<lambda>s. EqualFold uf (KeyName s) name \<and> tagsMatch (Tags s) tags) (Secrets resp) of
        Some s \<Rightarrow> GetSecret t c (ID s) None tr'
      | None \<Rightarrow> (Inl (NotFoundError name), tr'))"
  using assms by (simp add: FindSecret_def FindSecret_loop_find)

text \<open>
  On the example server: for \<open>db_pass\<close> the first entry is passed over for its name
  alone, the second for its tags alone, and the third, \<open>DB_PASS\<close>, is fetched; for
  \<open>db\<close> the only entry is passed over for its name and nothing is fetched; for the
  name with the accented letter the first entry, in capital letters, is fetched.
\<close>

theorem FindSecret_first_match_witness:
  "fst (FindSecret latin_fold example_server example_client ''db_pass'' [(''env'', ''prod'')] [])
     = Inr \<lparr>ID = ''2'', KeyName = ''DB_PASS'', Value = ''s3cret'', Description = [],
            Tags = [(''env'', ''prod''), (''app'', ''web'')], Version = 4,
            CreatedAt = [], UpdatedAt = []\<rparr>
   \<and> requested (snd (FindSecret latin_fold example_server example_client ''db_pass''
        [(''env'', ''prod'')] []))
     = [(''GET'', ''https://api.example.com/api/v1/secrets?env=prod&limit=100&search=db_pass''),
        (''GET'', ''https://api.example.com/api/v1/secrets/2'')]
   \<and> FindSecret latin_fold example_server example_client ''db'' [(''env'', ''prod'')] []
     = (Inl (NotFoundError ''db''),
        snd (ListSecrets example_server example_client [(''env'', ''prod'')] ''db'' 100 []))
   \<and> requested (snd (FindSecret latin_fold example_server example_client
        (''caf'' @ [CHR 0xC3, CHR 0xA9]) [(''env'', ''prod'')] []))
     = [(''GET'', ''https://api.example.com/api/v1/secrets?env=prod&limit=100&search=caf%C3%A9''),
        (''GET'', ''https://api.example.com/api/v1/secrets/8'')]"
proof -
  let ?s0 = "\<lparr>ID = ''0'', KeyName = ''db_pass_old'', Value = [], Description = [],
     Tags = [(''env'', ''prod'')], Version = 0, CreatedAt = [], UpdatedAt = []\<rparr>"
  let ?s1 = "\<lparr>ID = ''1'', KeyName = ''db_pass'', Value = [], Description = [],
     Tags = [(''env'', ''dev'')], Version = 0, CreatedAt = [], UpdatedAt = []\<rparr>"
  let ?s2 = "\<lparr>ID = ''2'', KeyName = ''DB_PASS'', Value = [], Description = [],
     Tags = [(''env'', ''prod''), (''app'', ''web'')], Version = 0, CreatedAt = [], UpdatedAt = []\<rparr>"
  let ?u = "''https://api.example.com/api/v1/secrets?env=prod&limit=100&search=db_pass''"
  let ?tr = "[Call_NewRequest ''GET'' ?u, Call_Do (new_request example_client ''GET'' ?u)]"
  let ?P = "\<lambda>n s. EqualFold latin_fold (KeyName s) n \<and> tagsMatch (Tags s) [(''env'', ''prod'')]"
  have h: "ListSecrets example_server example_client [(''env'', ''prod'')] ''db_pass'' 100 []
      = (Inr \<lparr>Secrets = [?s0, ?s1, ?s2], Total = 3\<rparr>, ?tr)"
    by code_simp
  have e: "find (?P ''db_pass'') (Secrets \<lparr>Secrets = [?s0, ?s1, ?s2], Total = 3\<rparr>) = Some ?s2"
    by code_simp
  have g: "fst (GetSecret example_server example_client (ID ?s2) None ?tr)
      = Inr \<lparr>ID = ''2'', KeyName = ''DB_PASS'', Value = ''s3cret'', Description = [],
            Tags = [(''env'', ''prod''), (''app'', ''web'')], Version = 4,
            CreatedAt = [], UpdatedAt = []\<rparr>"
    by code_simp
  have r: "requested (snd (GetSecret example_server example_client (ID ?s2) None ?tr))
      = [(''GET'', ?u), (''GET'', ''https://api.example.com/api/v1/secrets/2'')]"
    by code_simp
  have 1: "FindSecret latin_fold example_server example_client ''db_pass'' [(''env'', ''prod'')] []
      = GetSecret example_server example_client (ID ?s2) None ?tr"
    using FindSecret_first_match [OF h, of latin_fold] unfolding e by simp
  let ?u' = "''https://api.example.com/api/v1/secrets?env=prod&limit=100&search=db''"
  let ?tr' = "[Call_NewRequest ''GET'' ?u', Call_Do (new_request example_client ''GET'' ?u')]"
  have h': "ListSecrets example_server example_client [(''env'', ''prod'')] ''db'' 100 []
      = (Inr \<lparr>Secrets = [?s0], Total = 1\<rparr>, ?tr')"
    by code_simp
  have e': "find (?P ''db'') (Secrets \<lparr>Secrets = [?s0], Total = 1\<rparr>) = None"
    by code_simp
  have 2: "FindSecret latin_fold example_server example_client ''db'' [(''env'', ''prod'')] []
      = (Inl (NotFoundError ''db''), ?tr')"
    using FindSecret_first_match [OF h', of latin_fold] unfolding e' by simp
  let ?n = "''caf'' @ [CHR 0xC3, CHR 0xA9]"
  let ?s8 = "\<lparr>ID = ''8'', KeyName = ''CAF'' @ [CHR 0xC3, CHR 0x89], Value = [], Description = [],
     Tags = [(''env'', ''prod'')], Version = 0, CreatedAt = [], UpdatedAt = []\<rparr>"
  let ?s9 = "\<lparr>ID = ''9'', KeyName = ''caf'' @ [CHR 0xC3, CHR 0xA9], Value = [], Description = [],
     Tags = [(''env'', ''prod'')], Version = 0, CreatedAt = [], UpdatedAt = []\<rparr>"
  let ?v = "''https://api.example.com/api/v1/secrets?env=prod&limit=100&search=caf%C3%A9''"
  let ?tv = "[Call_NewRequest ''GET'' ?v, Call_Do (new_request example_client ''GET'' ?v)]"
  have h'': "ListSecrets example_server example_client [(''env'', ''prod'')] ?n 100 []
      = (Inr \<lparr>Secrets = [?s8, ?s9], Total = 2\<rparr>, ?tv)"
    by code_simp
  have e'': "find (?P ?n) (Secrets \<lparr>Secrets = [?s8, ?s9], Total = 2\<rparr>) = Some ?s8"
    by code_simp
  have r'': "requested (snd (GetSecret example_server example_client (ID ?s8) None ?tv))
      = [(''GET'', ?v), (''GET'', ''https://api.example.com/api/v1/secrets/8'')]"
    by code_simp
  have 3: "FindSecret latin_fold example_server example_client ?n [(''env'', ''prod'')] []
      = GetSecret example_server example_client (ID ?s8) None ?tv"
    using FindSecret_first_match [OF h'', of latin_fold] unfolding e'' by simp
  show ?thesis
    unfolding 1 2 3 h' using g r r'' by simp
qed

lemma doRequest_not_NotFoundError:
  "fst (doRequest t c m e p tr) \<noteq> Inl (NotFoundError n)"
  by (simp add: doRequest_def Let_def split: option.splits outcome.splits sum.splits)

lemma GetSecret_not_NotFoundError:
  "fst (GetSecret t c secretID version tr) \<noteq> Inl (NotFoundError n)"
  using doRequest_not_NotFoundError
    [of t c "''GET''" "''/api/v1/secrets/'' @ secretID"
        "case version of None \<Rightarrow> [] | Some v \<Rightarrow> Values_Set [] ''version'' (Itoa v)" tr n]
  by (auto simp: GetSecret_def Let_def split: prod.splits sum.splits)

lemma ListSecrets_not_NotFoundError:
  "fst (ListSecrets t c tags search limit tr) \<noteq> Inl (NotFoundError n)"
  using doRequest_not_NotFoundError
    [of t c "''GET''" "''/api/v1/secrets''" "ListSecrets_params tags search limit" tr n]
  by (auto simp: ListSecrets_def split: prod.splits sum.splits)

text \<open>
  C9. When an entry of the list matches the name (\<^verbatim>\<open>strings.EqualFold\<close>, for every
  case-folding table) and the tags, and the \<open>GetSecret\<close> call for the first such
  entry fails, \<open>FindSecret\<close> returns that very error. A \<open>NotFoundError\<close> comes
  only from a list call that succeeded with no matching entry: neither the list call
  nor the follow-up fetch can produce one.
\<close>

theorem FindSecret_propagates_GetSecret_error:
  "(\<forall>resp tr' s e tr''.
      ListSecrets t c tags name 100 tr = (Inr resp, tr')
      \<and> find (\<lambda>s. EqualFold uf (KeyName s) name \<and> tagsMatch (Tags s) tags) (Secrets resp) = Some s
      \<and> GetSecret t c (ID s) None tr' = (Inl e, tr'')
      \<longrightarrow> FindSecret uf t c name tags tr = (Inl e, tr'') \<and> (\<forall>n. e \<noteq> NotFoundError n))
   \<and> (\<forall>n. fst (FindSecret uf t c name tags tr) = Inl (NotFoundError n)
      \<longrightarrow> (\<exists>resp tr'. ListSecrets t c tags name 100 tr = (Inr resp, tr')
            \<and> find (\<lambda>s. EqualFold uf (KeyName s) name \<and> tagsMatch (Tags s) tags) (Secrets resp) = None
            \<and> n = name))"
proof (intro conjI allI impI)
  fix resp tr' s e tr''
  assume a: "ListSecrets t c tags name 100 tr = (Inr resp, tr')
      \<and> find (\<lambda>s. EqualFold uf (KeyName s) name \<and> tagsMatch (Tags s) tags) (Secrets resp) = Some s
      \<and> GetSecret t c (ID s) None tr' = (Inl e, tr'')"
  then show "FindSecret uf t c name tags tr = (Inl e, tr'')"
    by (simp add: FindSecret_def FindSecret_loop_find)
  fix n
  show "e \<noteq> NotFoundError n"
    using a GetSecret_not_NotFoundError [of t c "ID s" None tr' n] by auto
next
  fix n
  assume a: "fst (FindSecret uf t c name tags tr) = Inl (NotFoundError n)"
  obtain r tr' where l: "ListSecrets t c tags name 100 tr = (r, tr')"
    by (cases "ListSecrets t c tags name 100 tr")
  show "\<exists>resp tr'. ListSecrets t c tags name 100 tr = (Inr resp, tr')
            \<and> find (\<lambda>s. EqualFold uf (KeyName s) name \<and> tagsMatch (Tags s) tags) (Secrets resp) = None
            \<and> n = name"
  proof (cases r)
    case (Inl err)
    then have "fst (FindSecret uf t c name tags tr) = Inl err"
      using l by (simp add: FindSecret_def)
    moreover have "Inl err \<noteq> Inl (NotFoundError n)"
      using ListSecrets_not_NotFoundError [of t c tags name 100 tr n] l Inl by simp
    ultimately show ?thesis using a by simp
  next
    case (Inr resp)
    let ?f = "find (\<lambda>s. EqualFold uf (KeyName s) name \<and> tagsMatch (Tags s) tags) (Secrets resp)"
    have f: "FindSecret uf t c name tags tr =
       (case ?f of Some s \<Rightarrow> GetSecret t c (ID s) None tr' | None \<Rightarrow> (Inl (NotFoundError name), tr'))"
      using l Inr by (simp add: FindSecret_def FindSecret_loop_find)
    show ?thesis
    proof (cases ?f)
      case None
      then show ?thesis using f a l Inr by simp
    next
      case (Some s)
      then have "fst (FindSecret uf t c name tags tr) = fst (GetSecret t c (ID s) None tr')"
        using f by simp
      then show ?thesis
        using a GetSecret_not_NotFoundError [of t c "ID s" None tr' n] by simp
    qed
  qed
qed

theorem FindSecret_propagates_GetSecret_error_witness:
  "GetSecret example_server example_client ''7'' None
       (snd (ListSecrets example_server example_client [(''env'', ''prod'')] ''api_key'' 100 []))
     = (Inl (APIError 500 ''upstream timeout''),
        snd (FindSecret latin_fold example_server example_client ''api_key'' [(''env'', ''prod'')] []))
   \<and> FindSecret latin_fold example_server example_client ''api_key'' [(''env'', ''prod'')] []
     = (Inl (APIError 500 ''upstream timeout''),
        snd (FindSecret latin_fold example_server example_client ''api_key'' [(''env'', ''prod'')] []))
   \<and> fst (FindSecret latin_fold example_server example_client ''db'' [(''env'', ''prod'')] [])
     = Inl (NotFoundError ''db'')
   \<and> (\<exists>resp tr'. ListSecrets example_server example_client [(''env'', ''prod'')] ''db'' 100 []
         = (Inr resp, tr')
       \<and> find (\<lambda>s. EqualFold latin_fold (KeyName s) ''db'' \<and> tagsMatch (Tags s) [(''env'', ''prod'')])
            (Secrets resp) = None)"
proof -
  let ?s7 = "\<lparr>ID = ''7'', KeyName = ''api_key'', Value = [], Description = [],
     Tags = [(''env'', ''prod'')], Version = 0, CreatedAt = [], UpdatedAt = []\<rparr>"
  let ?u = "''https://api.example.com/api/v1/secrets?env=prod&limit=100&search=api_key''"
  let ?v = "''https://api.example.com/api/v1/secrets/7''"
  let ?tr = "[Call_NewRequest ''GET'' ?u, Call_Do (new_request example_client ''GET'' ?u)]"
  let ?tr2 = "?tr @ [Call_NewRequest ''GET'' ?v, Call_Do (new_request example_client ''GET'' ?v)]"
  have h: "ListSecrets example_server example_client [(''env'', ''prod'')] ''api_key'' 100 []
      = (Inr \<lparr>Secrets = [?s7], Total = 1\<rparr>, ?tr)"
    by code_simp
  have e: "find (\<lambda>s. EqualFold latin_fold (KeyName s) ''api_key'' \<and> tagsMatch (Tags s) [(''env'', ''prod'')])
      (Secrets \<lparr>Secrets = [?s7], Total = 1\<rparr>) = Some ?s7"
    by code_simp
  have g: "GetSecret example_server example_client (ID ?s7) None ?tr
      = (Inl (APIError 500 ''upstream timeout''), ?tr2)"
    by code_simp
  have 1: "FindSecret latin_fold example_server example_client ''api_key'' [(''env'', ''prod'')] []
      = (Inl (APIError 500 ''upstream timeout''), ?tr2)"
    using FindSecret_propagates_GetSecret_error
      [where uf = latin_fold and t = example_server and c = example_client
         and tags = "[(''env'', ''prod'')]" and name = "''api_key''" and tr = "[]"]
      h e g by blast
  have n: "fst (FindSecret latin_fold example_server example_client ''db'' [(''env'', ''prod'')] [])
      = Inl (NotFoundError ''db'')"
    by code_simp
  have 2: "\<exists>resp tr'. ListSecrets example_server example_client [(''env'', ''prod'')] ''db'' 100 []
         = (Inr resp, tr')
       \<and> find (\<lambda>s. EqualFold latin_fold (KeyName s) ''db'' \<and> tagsMatch (Tags s) [(''env'', ''prod'')])
            (Secrets resp) = None"
    using FindSecret_propagates_GetSecret_error
      [where uf = latin_fold and t = example_server and c = example_client
         and tags = "[(''env'', ''prod'')]" and name = "''db''" and tr = "[]"] n
    by blast
  show ?thesis
    using 1 2 n g h by simp
qed

subsection \<open>Responses and calls\<close>

lemma doRequest_Response:
  assumes "NewRequest t m (request_url c e p) = None"
    and "Do t (tr @ [Call_NewRequest m (request_url c e p)]) (new_request c m (request_url c e p))
         = Response status body"
  shows "doRequest t c m e p tr =
     (if 400 \<le> status then
        Inl (APIError status
          (case Unmarshal (decode_struct ErrorResponse_field) body zero_ErrorResponse of
             Inr errResp \<Rightarrow> if Error errResp \<noteq> [] then Error errResp else body
           | Inl err \<Rightarrow> body))
      else Inr body,
      tr @ [Call_NewRequest m (request_url c e p),
            Call_Do (new_request c m (request_url c e p))])"
  using assms by (simp add: doRequest_def Let_def split: sum.splits)

lemma FindSecret_loop_calls:
  "\<exists>G. snd (FindSecret_loop uf t c name tags ss tr) = tr @ G
       \<and> (requested G = []
          \<or> (\<exists>secretID. requested G = [(''GET'', BaseURL c @ ''/api/v1/secrets/'' @ secretID)]))"
proof (cases "find (\<lambda>s. EqualFold uf (KeyName s) name \<and> tagsMatch (Tags s) tags) ss")
  case None
  then have "snd (FindSecret_loop uf t c name tags ss tr) = tr @ []"
    by (simp add: FindSecret_loop_find)
  moreover have "requested [] = []" by (simp add: requested_def)
  ultimately show ?thesis by blast
next
  case (Some s)
  then have "snd (FindSecret_loop uf t c name tags ss tr)
      = snd (doRequest t c ''GET'' (''/api/v1/secrets/'' @ ID s) [] tr)"
    by (simp add: FindSecret_loop_find GetSecret_calls)
  moreover obtain G where "snd (doRequest t c ''GET'' (''/api/v1/secrets/'' @ ID s) [] tr) = tr @ G"
      "requested G = [(''GET'', request_url c (''/api/v1/secrets/'' @ ID s) [])]"
    using doRequest_calls by blast
  ultimately have "snd (FindSecret_loop uf t c name tags ss tr) = tr @ G
      \<and> requested G = [(''GET'', BaseURL c @ ''/api/v1/secrets/'' @ ID s)]"
    by (simp add: request_url_def)
  then show ?thesis by blast
qed

text \<open>
  C4. The calls of \<open>FindSecret name tags\<close> are those of
  \<open>ListSecrets tags name 100\<close>, one request for \<open>/api/v1/secrets\<close> with the query
  that \<open>ListSecrets\<close> builds from the tags, the search string \<open>name\<close> and the
  limit 100 (so the query has \<open>limit=100\<close>), followed by nothing or by one request
  for a single secret, \<open>/api/v1/secrets/{id}\<close>: the list request comes first and
  there is no second one.
\<close>

theorem FindSecret_one_ListSecrets_call:
  "\<exists>G. snd (FindSecret uf t c name tags tr) = snd (ListSecrets t c tags name 100 tr) @ G
     \<and> requested (snd (ListSecrets t c tags name 100 tr))
        = requested tr
          @ [(''GET'', BaseURL c @ ''/api/v1/secrets?''
                @ Values_Encode (ListSecrets_params tags name 100))]
     \<and> (requested G = []
        \<or> (\<exists>secretID. requested G = [(''GET'', BaseURL c @ ''/api/v1/secrets/'' @ secretID)]))
     \<and> map_of (ListSecrets_params tags name 100) ''limit'' = Some [''100'']"
proof -
  have ne: "ListSecrets_params tags name 100 \<noteq> []"
    by (simp add: ListSecrets_params_def Let_def Values_Set_not_empty)
  have i: "Itoa 100 = ''100''"
    by code_simp
  have lim: "map_of (ListSecrets_params tags name 100) ''limit'' = Some [''100'']"
    by (simp add: ListSecrets_params_def Let_def Values_Set_def update_conv' i)
  have 1: "requested (snd (ListSecrets t c tags name 100 tr))
        = requested tr
          @ [(''GET'', BaseURL c @ ''/api/v1/secrets?''
                @ Values_Encode (ListSecrets_params tags name 100))]"
    using ne by (simp add: ListSecrets_calls doRequest_requested request_url_def)
  obtain r tr' where l: "ListSecrets t c tags name 100 tr = (r, tr')"
    by (cases "ListSecrets t c tags name 100 tr")
  show ?thesis
  proof (cases r)
    case (Inl err)
    then have "snd (FindSecret uf t c name tags tr) = snd (ListSecrets t c tags name 100 tr) @ []"
      using l by (simp add: FindSecret_def)
    moreover have "requested [] = []" by (simp add: requested_def)
    ultimately show ?thesis using 1 lim by blast
  next
    case (Inr resp)
    then have "snd (FindSecret uf t c name tags tr)
        = snd (FindSecret_loop uf t c name tags (Secrets resp) (snd (ListSecrets t c tags name 100 tr)))"
      using l by (simp add: FindSecret_def)
    then show ?thesis
      using 1 lim FindSecret_loop_calls
        [of uf t c name tags "Secrets resp" "snd (ListSecrets t c tags name 100 tr)"]
      by auto
  qed
qed

subsection \<open>PullGroupSecrets\<close>

text \<open>
  C7. \<open>PullGroupSecrets name\<close> requests
  \<open>GET /api/v1/groups/{path-escaped name}/secrets?format=json\<close>. When the answer to
  that request has status 200 and the body
  \<open>{"group":"g","tags":{},"secrets":{"A":"1","B":"2"},"count":2}\<close>, the result
  is a \<open>GroupSecrets\<close> with the secrets \<open>{A: 1, B: 2}\<close> and the count 2.
\<close>

theorem PullGroupSecrets_example:
  assumes \<open>url = BaseURL c @ ''/api/v1/groups/'' @ PathEscape name @ ''/secrets?format=json''\<close>
    and \<open>NewRequest t ''GET'' url = None\<close>
    and \<open>Do t (tr @ [Call_NewRequest ''GET'' url]) (new_request c ''GET'' url) = Response 200 body\<close>
    and \<open>body = ''{"group":"g","tags":{},"secrets":{"A":"1","B":"2"},"count":2}''\<close>
  shows \<open>requested (snd (PullGroupSecrets t c name tr)) = requested tr @ [(''GET'', url)]
    \<and> fst (PullGroupSecrets t c name tr)
      = Inr \<lparr>GroupSecrets_Group = ''g'', GroupSecrets_Tags = [],
             GroupSecrets_Secrets = [(''A'', ''1''), (''B'', ''2'')], Count = 2\<rparr>\<close>
proof -
  have u: "request_url c (''/api/v1/groups/'' @ PathEscape name @ ''/secrets'')
      (Values_Set [] ''format'' ''json'') = url"
    using assms(1)
    by (simp add: request_url_def Values_Set_not_empty Values_Encode_single
          QueryEscape_format QueryEscape_json)
  have d: \<open>Unmarshal (decode_struct GroupSecrets_field)
      ''{"group":"g","tags":{},"secrets":{"A":"1","B":"2"},"count":2}'' zero_GroupSecrets
      = Inr \<lparr>GroupSecrets_Group = ''g'', GroupSecrets_Tags = [],
             GroupSecrets_Secrets = [(''A'', ''1''), (''B'', ''2'')], Count = 2\<rparr>\<close>
    by code_simp
  have "doRequest t c ''GET'' (''/api/v1/groups/'' @ PathEscape name @ ''/secrets'')
      (Values_Set [] ''format'' ''json'') tr
      = (Inr body, tr @ [Call_NewRequest ''GET'' url, Call_Do (new_request c ''GET'' url)])"
    using doRequest_Response
      [of t "''GET''" c "''/api/v1/groups/'' @ PathEscape name @ ''/secrets''"
          "Values_Set [] ''format'' ''json''" tr 200 body]
      assms(2,3)
    unfolding u by simp
  then have "fst (PullGroupSecrets t c name tr)
      = Inr \<lparr>GroupSecrets_Group = ''g'', GroupSecrets_Tags = [],
             GroupSecrets_Secrets = [(''A'', ''1''), (''B'', ''2'')], Count = 2\<rparr>"
    using d assms(4) by (simp add: PullGroupSecrets_def)
  moreover have "requested (snd (PullGroupSecrets t c name tr)) = requested tr @ [(''GET'', url)]"
    unfolding PullGroupSecrets_calls doRequest_requested u by simp
  ultimately show ?thesis by simp
qed

theorem PullGroupSecrets_example_witness:
  \<open>requested (snd (PullGroupSecrets example_server example_client ''g'' []))
     = [(''GET'', ''https://api.example.com/api/v1/groups/g/secrets?format=json'')]
   \<and> fst (PullGroupSecrets example_server example_client ''g'' [])
     = Inr \<lparr>GroupSecrets_Group = ''g'', GroupSecrets_Tags = [],
            GroupSecrets_Secrets = [(''A'', ''1''), (''B'', ''2'')], Count = 2\<rparr>\<close>
proof -
  let ?u = "''https://api.example.com/api/v1/groups/g/secrets?format=json''"
  have 1: "?u = BaseURL example_client @ ''/api/v1/groups/'' @ PathEscape ''g'' @ ''/secrets?format=json''"
    by code_simp
  have 2: "NewRequest example_server ''GET'' ?u = None"
    by (simp add: example_server_def)
  have 3: \<open>Do example_server ([] @ [Call_NewRequest ''GET'' ?u]) (new_request example_client ''GET'' ?u)
      = Response 200 ''{"group":"g","tags":{},"secrets":{"A":"1","B":"2"},"count":2}''\<close>
    by code_simp
  show ?thesis
    using PullGroupSecrets_example [OF 1 2 3 refl] by (simp add: requested_def)
qed

subsection \<open>The query of ListSecrets\<close>

lemma map_of_Values_Set:
  "map_of (Values_Set v k x) k' = (if k' = k then Some [x] else map_of v k')"
  by (simp add: Values_Set_def update_conv')

lemma distinct_Values_Set:
  "distinct (map fst v) \<Longrightarrow> distinct (map fst (Values_Set v k x))"
  by (simp add: Values_Set_def distinct_update)

lemma map_of_tags_params:
  "distinct (map fst tags) \<Longrightarrow>
   map_of (tags_params tags params) k =
     (case map_of tags k of Some v \<Rightarrow> Some [v] | None \<Rightarrow> map_of params k)"
proof (induction tags arbitrary: params)
  case Nil
  then show ?case by simp
next
  case (Cons kv tags)
  obtain a b where kv: "kv = (a, b)" by (cases kv)
  have d: "distinct (map fst tags)" and n: "map_of tags a = None"
    using Cons.prems kv by (auto simp: map_of_eq_None_iff)
  show ?case
    using Cons.IH [OF d, of "Values_Set params a b"] n
    by (auto simp: kv map_of_Values_Set split: option.splits)
qed

lemma distinct_tags_params:
  "distinct (map fst params) \<Longrightarrow> distinct (map fst (tags_params tags params))"
  by (induction tags arbitrary: params) (auto simp: distinct_Values_Set)

text \<open>
  C5. The specification states that every tag is sent as a query parameter \<open>key=value\<close>, a
  \<open>search\<close> parameter is sent iff the search string is not empty, and a \<open>limit\<close>
  parameter iff the limit is positive. The tags, the search string and the limit share
  one \<^verbatim>\<open>url.Values\<close>, set in this order, so a tag named \<open>limit\<close> is replaced by
  the limit (the tag \<open>limit=5\<close> with the limit 100 is sent as \<open>limit=100\<close>), and a
  tag named \<open>search\<close> is sent as a \<open>search\<close> parameter although the search string
  is empty.
\<close>

theorem ListSecrets_reserved_tag_names:
  "map_of (ListSecrets_params [(''limit'', ''5'')] [] 100) ''limit'' = Some [''100'']
   \<and> map_of (ListSecrets_params [(''limit'', ''5'')] [] 100) ''limit'' \<noteq> Some [''5'']
   \<and> requested (snd (ListSecrets example_server example_client [(''limit'', ''5'')] [] 100 []))
       = [(''GET'', ''https://api.example.com/api/v1/secrets?limit=100'')]
   \<and> map_of (ListSecrets_params [(''search'', ''x'')] [] 0) ''search'' = Some [''x'']"
proof -
  have 1: "map_of (ListSecrets_params [(''limit'', ''5'')] [] 100) ''limit'' = Some [''100'']"
    by code_simp
  have 2: "requested (snd (ListSecrets example_server example_client [(''limit'', ''5'')] [] 100 []))
       = [(''GET'', ''https://api.example.com/api/v1/secrets?limit=100'')]"
    by code_simp
  have 3: "map_of (ListSecrets_params [(''search'', ''x'')] [] 0) ''search'' = Some [''x'']"
    by code_simp
  show ?thesis using 1 2 3 by simp
qed

text \<open>
  C5, amended. \<open>ListSecrets\<close> requests \<open>GET /api/v1/secrets\<close> with the query that
  encodes these parameters, each key once: \<open>limit\<close> with the limit in decimal when the
  limit is positive; \<open>search\<close> with the search string when it is not empty; and
  every tag \<open>key=value\<close> whose key is not replaced by one of those two. There are no
  other parameters, and no query when there is none.
\<close>

theorem ListSecrets_query_parameters:
  assumes "distinct (map fst tags)"
  shows "requested (snd (ListSecrets t c tags search limit tr))
       = requested tr
         @ [(''GET'', BaseURL c @ ''/api/v1/secrets''
              @ (if ListSecrets_params tags search limit = [] then []
                 else ''?'' @ Values_Encode (ListSecrets_params tags search limit)))]
    \<and> map_of (ListSecrets_params tags search limit) k
       = (if k = ''limit'' \<and> 0 < limit then Some [Itoa limit]
          else if k = ''search'' \<and> search \<noteq> [] then Some [search]
          else map_option (\<lambda>v. [v]) (map_of tags k))
    \<and> distinct (map fst (ListSecrets_params tags search limit))"
proof -
  have 1: "requested (snd (ListSecrets t c tags search limit tr))
       = requested tr
         @ [(''GET'', BaseURL c @ ''/api/v1/secrets''
              @ (if ListSecrets_params tags search limit = [] then []
                 else ''?'' @ Values_Encode (ListSecrets_params tags search limit)))]"
    by (simp add: ListSecrets_calls doRequest_requested request_url_def)
  have 2: "map_of (ListSecrets_params tags search limit) k
       = (if k = ''limit'' \<and> 0 < limit then Some [Itoa limit]
          else if k = ''search'' \<and> search \<noteq> [] then Some [search]
          else map_option (\<lambda>v. [v]) (map_of tags k))"
    using assms
    by (simp add: ListSecrets_params_def Let_def map_of_Values_Set map_of_tags_params
          split: option.splits)
  have 3: "distinct (map fst (ListSecrets_params tags search limit))"
    by (simp add: ListSecrets_params_def Let_def distinct_Values_Set distinct_tags_params)
  show ?thesis using 1 2 3 by blast
qed

theorem ListSecrets_query_parameters_witness:
  "distinct (map fst [(''env'', ''prod''), (''app'', ''web'')])
   \<and> requested (snd (ListSecrets example_server example_client
        [(''env'', ''prod''), (''app'', ''web'')] ''db pass'' 100 []))
       = [(''GET'', ''https://api.example.com/api/v1/secrets?app=web&env=prod&limit=100&search=db+pass'')]
   \<and> map_of (ListSecrets_params [(''env'', ''prod''), (''app'', ''web'')] ''db pass'' 100) ''env''
       = Some [''prod'']
   \<and> map_of (ListSecrets_params [(''env'', ''prod''), (''app'', ''web'')] ''db pass'' 100) ''search''
       = Some [''db pass'']
   \<and> map_of (ListSecrets_params [(''env'', ''prod''), (''app'', ''web'')] ''db pass'' 100) ''limit''
       = Some [''100'']
   \<and> map_of (ListSecrets_params [(''env'', ''prod''), (''app'', ''web'')] ''db pass'' 100) ''other''
       = None"
proof -
  let ?tags = "[(''env'', ''prod''), (''app'', ''web'')]"
  have d: "distinct (map fst ?tags)" by simp
  have ne: "ListSecrets_params ?tags ''db pass'' 100 \<noteq> []"
    by (simp add: ListSecrets_params_def Let_def Values_Set_not_empty)
  have b: "BaseURL example_client = ''https://api.example.com''"
    by code_simp
  have e: "Values_Encode (ListSecrets_params ?tags ''db pass'' 100)
      = ''app=web&env=prod&limit=100&search=db+pass''"
    by code_simp
  have i: "Itoa 100 = ''100''"
    by code_simp
  have r: "requested [] = []" by (simp add: requested_def)
  note w = ListSecrets_query_parameters [OF d, of example_server example_client "''db pass''" 100 "[]"]
  have 1: "requested (snd (ListSecrets example_server example_client ?tags ''db pass'' 100 []))
       = [(''GET'', ''https://api.example.com/api/v1/secrets?app=web&env=prod&limit=100&search=db+pass'')]"
    using w [of "''env''"] ne unfolding b e r by simp
  show ?thesis
    using d 1 w [of "''env''"] w [of "''search''"] w [of "''limit''"] w [of "''other''"] i
    by simp
qed

subsection \<open>API errors\<close>

lemma doRequest_fixed:
  assumes "\<forall>method url. NewRequest t method url = None"
    and "\<forall>tr req. Do t tr req = Response status body"
    and "400 \<le> status"
  shows "fst (doRequest t c m e p tr) =
     Inl (APIError status
       (case Unmarshal (decode_struct ErrorResponse_field) body zero_ErrorResponse of
          Inr errResp \<Rightarrow> if Error errResp \<noteq> [] then Error errResp else body
        | Inl err \<Rightarrow> body))"
  using assms doRequest_Response [of t m c e p tr status body] by simp

text \<open>
  C3. The specification states that on a status of 400 or more the message of the
  \<open>APIError\<close> is the \<open>error\<close> field of the body whenever the body is JSON with
  that field present.
  The code takes the field only when it is a string and not empty
  (\<^verbatim>\<open>err == nil && errResp.Error != ""\<close>): for the body \<open>{"error":""}\<close>, which
  decodes with the field present and empty, the message is the raw body and not the
  empty string.
\<close>

theorem APIError_empty_error_field:
  \<open>Unmarshal (decode_struct ErrorResponse_field) ''{"error":""}'' zero_ErrorResponse
     = Inr \<lparr>Error = ''''\<rparr>
   \<and> fst (GetGroup (fixed_server 400 ''{"error":""}'') example_client ''x'' [])
     = Inl (APIError 400 ''{"error":""}'')
   \<and> fst (GetGroup (fixed_server 400 ''{"error":""}'') example_client ''x'' [])
     \<noteq> Inl (APIError 400 '''')\<close>
proof -
  have 1: \<open>Unmarshal (decode_struct ErrorResponse_field) ''{"error":""}'' zero_ErrorResponse
     = Inr \<lparr>Error = ''''\<rparr>\<close>
    by code_simp
  have 2: \<open>fst (GetGroup (fixed_server 400 ''{"error":""}'') example_client ''x'' [])
     = Inl (APIError 400 ''{"error":""}'')\<close>
    by code_simp
  show ?thesis using 1 2 by simp
qed

text \<open>
  C3, amended. The message \<open>msg\<close> of a response with a status of 400 or more is the
  \<open>error\<close> field of the body when the body decodes as a JSON object whose
  \<open>error\<close> field is a non-empty string, and the raw body otherwise. Every request
  of \<open>doRequest\<close> that is answered with such a response fails with the \<open>APIError\<close>
  of that status and message, and so does every operation of the client when the server
  answers with it. The status 404 with the body \<open>{"error": "not found"}\<close> gives the
  message \<open>not found\<close>, and a body that is not JSON is the message itself.
\<close>

theorem APIError_on_error_status:
  assumes "\<forall>method url. NewRequest t method url = None"
    and "\<forall>tr req. Do t tr req = Response status body"
    and "400 \<le> status"
    and "msg = (case Unmarshal (decode_struct ErrorResponse_field) body zero_ErrorResponse of
                  Inr errResp \<Rightarrow> if Error errResp \<noteq> [] then Error errResp else body
                | Inl err \<Rightarrow> body)"
  shows \<open>(\<forall>t' tr'. NewRequest t' meth (request_url c endpoint params) = None
        \<and> Do t' (tr' @ [Call_NewRequest meth (request_url c endpoint params)])
             (new_request c meth (request_url c endpoint params)) = Response status body
        \<longrightarrow> fst (doRequest t' c meth endpoint params tr') = Inl (APIError status msg))
    \<and> fst (GetSecret t c secretID version tr) = Inl (APIError status msg)
    \<and> fst (ListSecrets t c tags search limit tr) = Inl (APIError status msg)
    \<and> fst (FindSecret uf t c name tags tr) = Inl (APIError status msg)
    \<and> fst (GetGroup t c name tr) = Inl (APIError status msg)
    \<and> fst (PullGroupSecrets t c name tr) = Inl (APIError status msg)
    \<and> (body = ''{"error": "not found"}'' \<longrightarrow> msg = ''not found'')
    \<and> (parse_json body = None \<longrightarrow> msg = body)\<close>
proof -
  have d: "fst (doRequest t c m e p tr) = Inl (APIError status msg)" for m e p
    using doRequest_fixed [OF assms(1-3)] assms(4) by simp
  have 0: "\<forall>t' tr'. NewRequest t' meth (request_url c endpoint params) = None
        \<and> Do t' (tr' @ [Call_NewRequest meth (request_url c endpoint params)])
             (new_request c meth (request_url c endpoint params)) = Response status body
        \<longrightarrow> fst (doRequest t' c meth endpoint params tr') = Inl (APIError status msg)"
    using assms(3,4) by (auto simp: doRequest_Response)
  have 1: "fst (GetSecret t c secretID version tr) = Inl (APIError status msg)"
    using d [of "''GET''" "''/api/v1/secrets/'' @ secretID"
          "case version of None \<Rightarrow> [] | Some v \<Rightarrow> Values_Set [] ''version'' (Itoa v)"]
    by (auto simp: GetSecret_def Let_def split: prod.splits sum.splits)
  have 2: "fst (ListSecrets t c tags search limit tr) = Inl (APIError status msg)" for search limit
    using d [of "''GET''" "''/api/v1/secrets''" "ListSecrets_params tags search limit"]
    by (auto simp: ListSecrets_def split: prod.splits sum.splits)
  have 3: "fst (FindSecret uf t c name tags tr) = Inl (APIError status msg)"
    using 2 [of name 100] by (auto simp: FindSecret_def split: prod.splits sum.splits)
  have 4: "fst (GetGroup t c name tr) = Inl (APIError status msg)"
    using d [of "''GET''" "''/api/v1/groups/'' @ PathEscape name" "[]"]
    by (auto simp: GetGroup_def Let_def split: prod.splits sum.splits)
  have 5: "fst (PullGroupSecrets t c name tr) = Inl (APIError status msg)"
    using d [of "''GET''" "''/api/v1/groups/'' @ PathEscape name @ ''/secrets''"
          "Values_Set [] ''format'' ''json''"]
    by (auto simp: PullGroupSecrets_def Let_def split: prod.splits sum.splits)
  have u: \<open>Unmarshal (decode_struct ErrorResponse_field) ''{"error": "not found"}'' zero_ErrorResponse
      = Inr \<lparr>Error = ''not found''\<rparr>\<close>
    by code_simp
  have 6: \<open>body = ''{"error": "not found"}'' \<longrightarrow> msg = ''not found''\<close>
    using assms(4) u by simp
  have 7: "parse_json body = None \<longrightarrow> msg = body"
    using assms(4) by (simp add: Unmarshal_def)
  show ?thesis using 0 1 2 3 4 5 6 7 by blast
qed

theorem APIError_on_error_status_witness:
  \<open>fst (GetSecret (fixed_server 404 ''{"error": "not found"}'') example_client ''2'' None [])
     = Inl (APIError 404 ''not found'')
   \<and> fst (FindSecret latin_fold (fixed_server 404 ''{"error": "not found"}'') example_client
          ''db_pass'' [(''env'', ''prod'')] [])
     = Inl (APIError 404 ''not found'')
   \<and> parse_json ''Internal Server Error'' = None
   \<and> fst (PullGroupSecrets (fixed_server 500 ''Internal Server Error'') example_client ''g'' [])
     = Inl (APIError 500 ''Internal Server Error'')
   \<and> fst (doRequest example_server example_client ''GET'' ''/api/v1/secrets/7'' [] [])
     = Inl (APIError 500 ''upstream timeout'')\<close>
proof -
  let ?B = \<open>''{"error": "not found"}''\<close>
  let ?C = "''Internal Server Error''"
  have n: "\<forall>method url. NewRequest (fixed_server s b) method url = None" for s b
    by (simp add: fixed_server_def)
  have r: "\<forall>tr req. Do (fixed_server s b) tr req = Response s b" for s b
    by (simp add: fixed_server_def)
  have p: "parse_json ?C = None"
    by code_simp
  have 1: "fst (GetSecret (fixed_server 404 ?B) example_client ''2'' None [])
     = Inl (APIError 404 ''not found'')"
    using APIError_on_error_status
      [where t = "fixed_server 404 ?B" and status = 404 and body = ?B and c = example_client
         and tr = "[]" and secretID = "''2''" and version = None, OF n r _ refl]
    by simp
  have 2: "fst (FindSecret latin_fold (fixed_server 404 ?B) example_client ''db_pass'' [(''env'', ''prod'')] [])
     = Inl (APIError 404 ''not found'')"
    using APIError_on_error_status
      [where t = "fixed_server 404 ?B" and status = 404 and body = ?B and c = example_client
         and tr = "[]" and name = "''db_pass''" and tags = "[(''env'', ''prod'')]"
         and uf = latin_fold, OF n r _ refl]
    by simp
  have 3: "fst (PullGroupSecrets (fixed_server 500 ?C) example_client ''g'' [])
     = Inl (APIError 500 ?C)"
    using APIError_on_error_status
      [where t = "fixed_server 500 ?C" and status = 500 and body = ?C and c = example_client
         and tr = "[]" and name = "''g''", OF n r _ refl] p
    by simp
  let ?D = "''upstream timeout''"
  let ?u = "''https://api.example.com/api/v1/secrets/7''"
  have u: "request_url example_client ''/api/v1/secrets/7'' [] = ?u"
    by code_simp
  have q: "NewRequest example_server ''GET'' ?u = None"
    by (simp add: example_server_def)
  have o: "Do example_server ([] @ [Call_NewRequest ''GET'' ?u]) (new_request example_client ''GET'' ?u)
      = Response 500 ?D"
    by code_simp
  have pd: "parse_json ?D = None"
    by code_simp
  have m: "(case Unmarshal (decode_struct ErrorResponse_field) ?D zero_ErrorResponse of
              Inr errResp \<Rightarrow> if Error errResp \<noteq> [] then Error errResp else ?D
            | Inl err \<Rightarrow> ?D) = ?D"
    using pd by (simp add: Unmarshal_def)
  have c500: "(400::int) \<le> 500" by simp
  have g: "\<forall>t' tr'. NewRequest t' ''GET'' (request_url example_client ''/api/v1/secrets/7'' []) = None
        \<and> Do t' (tr' @ [Call_NewRequest ''GET'' (request_url example_client ''/api/v1/secrets/7'' [])])
             (new_request example_client ''GET'' (request_url example_client ''/api/v1/secrets/7'' []))
           = Response 500 ?D
        \<longrightarrow> fst (doRequest t' example_client ''GET'' ''/api/v1/secrets/7'' [] tr')
            = Inl (APIError 500
                (case Unmarshal (decode_struct ErrorResponse_field) ?D zero_ErrorResponse of
                   Inr errResp \<Rightarrow> if Error errResp \<noteq> [] then Error errResp else ?D
                 | Inl err \<Rightarrow> ?D))"
    by (rule conjunct1, rule APIError_on_error_status
      [where t = "fixed_server 500 ?D" and status = 500 and body = ?D and c = example_client
         and meth = "''GET''" and endpoint = "''/api/v1/secrets/7''" and params = "[]",
       OF n r c500 refl])
  have 4: "fst (doRequest example_server example_client ''GET'' ''/api/v1/secrets/7'' [] [])
     = Inl (APIError 500 ?D)"
    using g [unfolded u m] q o by blast
  show ?thesis using 1 2 3 4 p by simp
qed

end
